theory Spec2Isabelle
  imports Main "HOL-Library.Sublist"
begin

section \<open>The resign service: a shallow embedding of main.go\<close>

text \<open>
  The service keeps one Go map, \<open>ipaCache\<close>, from UUID strings to \<open>IPAInfo\<close> values, and a
  directory per UUID below \<open>./output\<close>. Its three handlers (\<open>analyzeIPAHandler\<close>,
  \<open>resignHandler\<close>, \<open>downloadHandler\<close>) are modelled as functions from the request and
  the state of the process (\<open>world\<close>) to the response and the new state.

  Everything a handler obtains from outside the process (the UUID drawn, the clock, the
  order in which \<open>range\<close> visits the map, the answers of the network, of the filesystem
  calls, of the zip and plist libraries and of the \<open>zsign\<close> subprocess) is a field of the
  record \<open>outside\<close>. The theorems quantify over it, so they hold for every behaviour of
  the environment; a filesystem call fails exactly when its field of \<open>outside\<close> says so.
\<close>

subsection \<open>Paths: \<open>filepath.Join\<close> and \<open>filepath.Clean\<close> on a Unix system\<close>

fun split_slash_acc :: "string \<Rightarrow> string \<Rightarrow> string list" where
  "split_slash_acc cur [] = [rev cur]"
| "split_slash_acc cur (c # cs) =
     (if c = CHR ''/'' then rev cur # split_slash_acc [] cs
      else split_slash_acc (c # cur) cs)"

definition split_slash :: "string \<Rightarrow> string list" where
  "split_slash s = split_slash_acc [] s"

fun join_slash :: "string list \<Rightarrow> string" where
  "join_slash [] = []"
| "join_slash [x] = x"
| "join_slash (x # y # ys) = x @ CHR ''/'' # join_slash (y # ys)"

text \<open>
  One step of \<open>Clean\<close> over the elements of a path, the elements kept so far in reverse
  order: empty elements and \<open>.\<close> are dropped, \<open>..\<close> removes the element before it, is dropped
  at the root of a rooted path and is kept at the start of a relative one.
\<close>

definition clean_step :: "bool \<Rightarrow> string list \<Rightarrow> string \<Rightarrow> string list" where
  "clean_step rooted acc c =
     (if c = [] \<or> c = ''.'' then acc
      else if c = ''..'' then
        (case acc of
           [] \<Rightarrow> if rooted then [] else [c]
         | a # as \<Rightarrow> if a = ''..'' then c # acc else as)
      else c # acc)"

definition path_elems :: "string \<Rightarrow> string list" where
  "path_elems p =
     rev (foldl (clean_step (p \<noteq> [] \<and> hd p = CHR ''/'')) [] (split_slash p))"

definition filepath_Clean :: "string \<Rightarrow> string" where
  "filepath_Clean p =
     (let body = join_slash (path_elems p) in
      if p \<noteq> [] \<and> hd p = CHR ''/'' then CHR ''/'' # body
      else if body = [] then ''.''
      else body)"

definition filepath_Join :: "string list \<Rightarrow> string" where
  "filepath_Join elem =
     (let es = filter (\<lambda>e. e \<noteq> []) elem in
      if es = [] then [] else filepath_Clean (join_slash es))"

definition outputDir :: string where
  "outputDir = ''./output''"

subsection \<open>The filesystem\<close>

record filesystem =
  dirs :: "string set"
  files :: "string \<rightharpoonup> string"

text \<open>\<open>inside p q\<close>: the path \<open>q\<close> is \<open>p\<close> or lies below it.\<close>

definition inside :: "string \<Rightarrow> string \<Rightarrow> bool" where
  "inside p q = prefix (path_elems p) (path_elems q)"

text \<open>
  \<open>os.Stat\<close> on the modelled filesystem: does anything exist at the path? \<open>resignHandler\<close>
  asks it of \<open>resigned.ipa\<close> in a working directory of its own making, right after the
  signer has run; there \<open>os.Stat\<close> is taken to fail only when nothing exists.
\<close>

definition os_Stat :: "filesystem \<Rightarrow> string \<Rightarrow> bool" where
  "os_Stat fs p = (p \<in> dirs fs \<or> files fs p \<noteq> None)"

text \<open>
  The directories on the way to a path, the path itself last: for \<open>output/u1\<close> they are
  \<open>output\<close> and \<open>output/u1\<close>.
\<close>

definition ancestors :: "string \<Rightarrow> string list" where
  "ancestors p =
     (let es = path_elems p;
          root = (if p \<noteq> [] \<and> hd p = CHR ''/'' then ''/'' else [])
      in map (\<lambda>n. root @ join_slash (take n es)) [1..<Suc (length es)])"

text \<open>\<open>os.MkdirAll\<close>, when it succeeds: the directory and every ancestor of it exist.\<close>

definition mkdir_all :: "string \<Rightarrow> filesystem \<Rightarrow> filesystem" where
  "mkdir_all p fs = fs\<lparr>dirs := dirs fs \<union> set (ancestors p)\<rparr>"

text \<open>
  \<open>os.RemoveAll\<close>: the path and everything below it are gone. (The handlers ignore its
  result; the model takes the removal to succeed.)
\<close>

definition os_RemoveAll :: "string \<Rightarrow> filesystem \<Rightarrow> filesystem" where
  "os_RemoveAll p fs =
     fs\<lparr>dirs := Set.filter (\<lambda>d. \<not> inside p d) (dirs fs),
        files := (\<lambda>q. if inside p q then None else files fs q)\<rparr>"

definition write_file :: "string \<Rightarrow> string \<Rightarrow> filesystem \<Rightarrow> filesystem" where
  "write_file p content fs = fs\<lparr>files := (files fs)(p \<mapsto> content)\<rparr>"

subsection \<open>The process state and the outside world\<close>

record IPAInfo =
  OriginalURL :: string
  UUID :: string
  BundleID :: string
  AppName :: string
  UploadedAt :: nat

text \<open>
  The calls to the outside that the properties speak of, logged in the order in which a
  handler makes them: \<open>http.Get\<close> on a URL, \<open>zip.OpenReader\<close> on a path, and a subprocess
  run with \<open>exec.Command\<close> and \<open>CombinedOutput\<close>.
\<close>

datatype event =
  HttpGet string
| ZipOpen string
| Exec string "string list"

record world =
  baseURL :: string
  ipaCache :: "string \<rightharpoonup> IPAInfo"
  disk :: filesystem
  trace :: "event list"

datatype http_result =
  GetErr string
| Response nat string string

datatype plist_value = PString string | PNotString

datatype zip_body = OpenErr string | ReadErr string | Data string

datatype zip_File = ZipFile (Name: string) (Body: zip_body)

text \<open>
  What one request gets from outside: the UUID of \<open>uuid.New\<close>, the time of \<open>time.Now\<close>, the
  order of the \<open>range\<close> loop, whether \<open>os.MkdirAll\<close>, \<open>os.Create\<close>, \<open>io.Copy\<close>,
  \<open>SaveUploadedFile\<close> and \<open>os.WriteFile\<close> fail, the answer of the server, what the zip
  and plist libraries make of a sequence of bytes, and what \<open>zsign\<close> does: whether
  \<open>CombinedOutput\<close> returns an error, the output, and the filesystem it leaves.
  \<open>Stat_err\<close> says for which paths \<open>os.Stat\<close> fails with an error that is not
  \<open>os.IsNotExist\<close> (a name too long, an invalid name, a file where a directory is
  expected): the path of \<open>downloadHandler\<close> comes from the request.
\<close>

record outside =
  uuid_New :: string
  time_Now :: nat
  range_order :: "string list"
  MkdirAll_err :: "string \<Rightarrow> bool"
  http_Get :: "string \<Rightarrow> http_result"
  Create_err :: "string \<Rightarrow> string option"
  Copy_err :: "(nat \<times> string) option"
  zip_NewReader :: "string \<Rightarrow> string + zip_File list"
  plist_Unmarshal :: "string \<Rightarrow> string + (string \<rightharpoonup> plist_value)"
  SaveUploadedFile_err :: "string \<Rightarrow> bool"
  Stat_err :: "string \<Rightarrow> bool"
  zsign :: "string list \<Rightarrow> filesystem \<Rightarrow> bool \<times> string \<times> filesystem"
  WriteFile_err :: "string \<Rightarrow> bool"

text \<open>The fields of the posted form (\<open>c.PostForm\<close>) and its two files (\<open>c.FormFile\<close>).\<close>

record form =
  ipa_url :: string
  ipa_uuid :: string
  bundle_id :: string
  app_name :: string
  p12_password :: string
  p12 :: "string option"
  mobileprovision :: "string option"

text \<open>
  How a handler ends: with \<open>c.JSON\<close> of a status and an \<open>error\<close> message (and, after a
  failed signing, the output of the signer), with one of the two bodies sent with status
  200, or with the call \<open>c.File(filePath)\<close> after the headers set before it. What
  \<open>c.File\<close> then writes (the bytes of the file, or an error answer of \<open>http.ServeFile\<close> for
  a path that it refuses or cannot open) is not part of the handler and not modelled.
\<close>

datatype response =
  JSON_error nat string
| JSON_error_output nat string string
| AnalyzeJSON string string string string bool
| ResignJSON string string string string string string
| c_File string "(string \<times> string) list"

subsection \<open>\<open>downloadFile\<close>\<close>

text \<open>
  \<open>os.MkdirAll\<close> and \<open>os.Create\<close> fail when the outside world says so. \<open>io.Copy\<close> either
  writes the whole body, or fails after some bytes (\<open>Copy_err = Some (n, message)\<close>) and
  leaves the first \<open>n\<close> bytes in the file.
\<close>

definition os_MkdirAll :: "outside \<Rightarrow> string \<Rightarrow> filesystem \<Rightarrow> filesystem option" where
  "os_MkdirAll ow p fs = (if MkdirAll_err ow p then None else Some (mkdir_all p fs))"

definition downloadFile :: "outside \<Rightarrow> string \<Rightarrow> string \<Rightarrow> world \<Rightarrow> string option \<times> world" where
  "downloadFile ow url filepath w =
     (let w1 = w\<lparr>trace := trace w @ [HttpGet url]\<rparr> in
      case http_Get ow url of
        GetErr err \<Rightarrow> (Some err, w1)
      | Response StatusCode Status body \<Rightarrow>
          if StatusCode \<noteq> 200 then (Some (''bad status: '' @ Status), w1)
          else
            (case Create_err ow filepath of
               Some err \<Rightarrow> (Some err, w1)
             | None \<Rightarrow>
                (case Copy_err ow of
                   Some (n, err) \<Rightarrow>
                     (Some err, w1\<lparr>disk := write_file filepath (take n body) (disk w1)\<rparr>)
                 | None \<Rightarrow> (None, w1\<lparr>disk := write_file filepath body (disk w1)\<rparr>))))"

subsection \<open>\<open>extractIPAInfo\<close>\<close>

text \<open>The type assertion \<open>v.(string)\<close> in its two-result form, on the value found in a map.\<close>

definition assert_string :: "plist_value option \<Rightarrow> string \<times> bool" where
  "assert_string v = (case v of Some (PString s) \<Rightarrow> (s, True) | _ \<Rightarrow> ([], False))"

definition zip_OpenReader :: "outside \<Rightarrow> filesystem \<Rightarrow> string \<Rightarrow> string + zip_File list" where
  "zip_OpenReader ow fs p =
     (case files fs p of
        None \<Rightarrow> Inl ''no such file or directory''
      | Some bytes \<Rightarrow> zip_NewReader ow bytes)"

definition HasSuffix :: "string \<Rightarrow> string \<Rightarrow> bool" where
  "HasSuffix s suf = suffix suf s"

definition extractIPAInfo :: "outside \<Rightarrow> filesystem \<Rightarrow> string \<Rightarrow> string + (string \<times> string)" where
  "extractIPAInfo ow fs ipaPath =
     (case zip_OpenReader ow fs ipaPath of
        Inl err \<Rightarrow> Inl (''failed to open IPA file: '' @ err)
      | Inr reader_File \<Rightarrow>
         (case find (\<lambda>file. HasSuffix (Name file) ''.app/Info.plist'') reader_File of
            None \<Rightarrow> Inl ''info.plist not found in IPA''
          | Some infoPlistFile \<Rightarrow>
             (case Body infoPlistFile of
                OpenErr err \<Rightarrow> Inl (''failed to open Info.plist: '' @ err)
              | ReadErr err \<Rightarrow> Inl (''failed to read Info.plist: '' @ err)
              | Data plistData \<Rightarrow>
                 (case plist_Unmarshal ow plistData of
                    Inl err \<Rightarrow> Inl (''failed to parse Info.plist: '' @ err)
                  | Inr plistObj \<Rightarrow>
                     (let (bundleID, ok) = assert_string (plistObj ''CFBundleIdentifier'') in
                      if \<not> ok then Inl ''CFBundleIdentifier not found or not a string''
                      else
                        (let (appName, ok) = assert_string (plistObj ''CFBundleDisplayName'') in
                         if \<not> ok then
                           (let (appName, ok) = assert_string (plistObj ''CFBundleName'') in
                            if \<not> ok then Inr (bundleID, ''Unknown App'')
                            else Inr (bundleID, appName))
                         else Inr (bundleID, appName)))))))"

subsection \<open>\<open>generatePlist\<close>\<close>

text \<open>
  The template is a constant of \<open>text/template\<close> with three fields, so executing it never
  fails and inserts the three strings as they are. The text between the fields:
\<close>

definition nl :: string where
  "nl = [CHR 0x0A]"

definition plistTemplate_head :: string where
  \<open>plistTemplate_head =
     ''<?xml version="1.0" encoding="UTF-8"?>'' @ nl @
     ''<!DOCTYPE plist PUBLIC "-//Apple//DTD PLIST 1.0//EN" "http://www.apple.com/DTDs/PropertyList-1.0.dtd">'' @ nl @
     ''<plist version="1.0">'' @ nl @
     ''<dict>'' @ nl @
     ''    <key>items</key>'' @ nl @
     ''    <array>'' @ nl @
     ''        <dict>'' @ nl @
     ''            <key>assets</key>'' @ nl @
     ''            <array>'' @ nl @
     ''                <dict>'' @ nl @
     ''                    <key>kind</key>'' @ nl @
     ''                    <string>software-package</string>'' @ nl @
     ''                    <key>url</key>'' @ nl @
     ''                    <string>''\<close>

definition plistTemplate_mid1 :: string where
  \<open>plistTemplate_mid1 =
     ''</string>'' @ nl @
     ''                </dict>'' @ nl @
     ''            </array>'' @ nl @
     ''            <key>metadata</key>'' @ nl @
     ''            <dict>'' @ nl @
     ''                <key>bundle-identifier</key>'' @ nl @
     ''                <string>''\<close>

definition plistTemplate_mid2 :: string where
  \<open>plistTemplate_mid2 =
     ''</string>'' @ nl @
     ''                <key>bundle-version</key>'' @ nl @
     ''                <string>1</string>'' @ nl @
     ''                <key>kind</key>'' @ nl @
     ''                <string>software</string>'' @ nl @
     ''                <key>title</key>'' @ nl @
     ''                <string>''\<close>

definition plistTemplate_tail :: string where
  \<open>plistTemplate_tail =
     ''</string>'' @ nl @
     ''            </dict>'' @ nl @
     ''        </dict>'' @ nl @
     ''    </array>'' @ nl @
     ''</dict>'' @ nl @
     ''</plist>''\<close>

definition generatePlist :: "string \<Rightarrow> string \<Rightarrow> string \<Rightarrow> string" where
  "generatePlist ipaURL bundleID appName =
     plistTemplate_head @ ipaURL @ plistTemplate_mid1 @ bundleID @
     plistTemplate_mid2 @ appName @ plistTemplate_tail"

subsection \<open>The scan of \<open>ipaCache\<close> by origin URL\<close>

text \<open>
  \<open>for _, info := range ipaCache\<close> visits every key of the map once, in an order that Go
  leaves unspecified and that may differ from one loop to the next. The order of one
  loop is \<open>range_order\<close>; it is an order of the map when \<open>range_ok\<close> holds.
\<close>

definition range_ipaCache :: "string list \<Rightarrow> (string \<rightharpoonup> IPAInfo) \<Rightarrow> IPAInfo list" where
  "range_ipaCache order m = List.map_filter m order"

definition range_ok :: "string list \<Rightarrow> (string \<rightharpoonup> IPAInfo) \<Rightarrow> bool" where
  "range_ok order m = (distinct order \<and> set order = dom m)"

text \<open>
  Lines 207 to 219 of \<open>analyzeIPAHandler\<close>: the first record met whose \<open>OriginalURL\<close> is the
  URL asked for (the specification calls this lookup \<open>find_by_origin\<close>).
\<close>

definition find_by_origin :: "string list \<Rightarrow> (string \<rightharpoonup> IPAInfo) \<Rightarrow> string \<Rightarrow> IPAInfo option" where
  "find_by_origin order m url = find (\<lambda>info. OriginalURL info = url) (range_ipaCache order m)"

subsection \<open>\<open>analyzeIPAHandler\<close>\<close>

definition download_url :: "string \<Rightarrow> string \<Rightarrow> string \<Rightarrow> string" where
  "download_url base uuid name = base @ ''/download/'' @ uuid @ ''/'' @ name"

definition analyzeIPAHandler :: "outside \<Rightarrow> form \<Rightarrow> world \<Rightarrow> response \<times> world" where
  "analyzeIPAHandler ow c w =
     (let ipaURL = ipa_url c in
      if ipaURL = [] then (JSON_error 400 ''Missing ipa_url parameter'', w)
      else
        (case find_by_origin (range_order ow) (ipaCache w) ipaURL of
           Some info \<Rightarrow>
             (AnalyzeJSON (UUID info) (BundleID info) (AppName info)
                (download_url (baseURL w) (UUID info) ''source.ipa'') True, w)
         | None \<Rightarrow>
            (let uuidStr = uuid_New ow;
                 workDir = filepath_Join [outputDir, uuidStr] in
             case os_MkdirAll ow workDir (disk w) of
               None \<Rightarrow> (JSON_error 500 ''Failed to create directory'', w)
             | Some fs1 \<Rightarrow>
                (let ipaPath = filepath_Join [workDir, ''source.ipa''];
                     (err, w2) = downloadFile ow ipaURL ipaPath (w\<lparr>disk := fs1\<rparr>) in
                 case err of
                   Some e \<Rightarrow> (JSON_error 500 (''Failed to download IPA file: '' @ e), w2)
                 | None \<Rightarrow>
                    (let w3 = w2\<lparr>trace := trace w2 @ [ZipOpen ipaPath]\<rparr> in
                     case extractIPAInfo ow (disk w3) ipaPath of
                       Inl e \<Rightarrow>
                         (JSON_error 500 (''Failed to extract IPA info: '' @ e),
                          w3\<lparr>disk := os_RemoveAll workDir (disk w3)\<rparr>)
                     | Inr (bundleID, appName) \<Rightarrow>
                         (AnalyzeJSON uuidStr bundleID appName
                            (download_url (baseURL w3) uuidStr ''source.ipa'') True,
                          w3\<lparr>ipaCache := (ipaCache w3)(uuidStr \<mapsto>
                               \<lparr>OriginalURL = ipaURL, UUID = uuidStr, BundleID = bundleID,
                                AppName = appName, UploadedAt = time_Now ow\<rparr>)\<rparr>))))))"

subsection \<open>\<open>downloadHandler\<close>\<close>

text \<open>
  Line 278, \<open>os.IsNotExist(err)\<close> for the error of \<open>os.Stat(filePath)\<close>: \<open>os.Stat\<close> has not
  failed otherwise and nothing exists at the path.
\<close>

definition Stat_IsNotExist :: "outside \<Rightarrow> filesystem \<Rightarrow> string \<Rightarrow> bool" where
  "Stat_IsNotExist ow fs p = (\<not> Stat_err ow p \<and> \<not> os_Stat fs p)"

definition downloadHandler ::
  "outside \<Rightarrow> string \<Rightarrow> string \<Rightarrow> world \<Rightarrow> response \<times> world" where
  "downloadHandler ow uuid filename w =
     (let filePath = filepath_Join [outputDir, uuid, filename] in
      if Stat_IsNotExist ow (disk w) filePath then (JSON_error 404 ''File not found'', w)
      else
        (c_File filePath
           (if HasSuffix filename ''.ipa'' then
              [(''Content-Type'', ''application/octet-stream''),
               (''Content-Disposition'', ''attachment; filename='' @ filename)]
            else if HasSuffix filename ''.plist'' then
              [(''Content-Type'', ''application/xml'')]
            else []),
         w))"

subsection \<open>\<open>resignHandler\<close>\<close>

text \<open>
  Lines 302 to 385: which IPA is to be signed. The result is either the response of an
  early return, or the values of \<open>uuidStr\<close>, \<open>workDir\<close>, \<open>sourceIpaPath\<close>, \<open>bundleID\<close> and
  \<open>appName\<close> with which the handler goes on.
\<close>

definition resign_source ::
  "outside \<Rightarrow> form \<Rightarrow> world \<Rightarrow>
     (response + (string \<times> string \<times> string \<times> string \<times> string)) \<times> world" where
  "resign_source ow c w =
     (let ipaUUID = ipa_uuid c; ipaURL = ipa_url c in
      if ipaUUID \<noteq> [] then
        (case ipaCache w ipaUUID of
           None \<Rightarrow> (Inl (JSON_error 400 ''Invalid ipa_uuid, IPA not found''), w)
         | Some info \<Rightarrow>
            (let uuidStr = ipaUUID;
                 workDir = filepath_Join [outputDir, uuidStr];
                 sourceIpaPath = filepath_Join [workDir, ''source.ipa''];
                 providedBundleID = bundle_id c;
                 providedAppName = app_name c;
                 bundleID = (if providedBundleID \<noteq> [] then providedBundleID else BundleID info);
                 appName = (if providedAppName \<noteq> [] then providedAppName else AppName info)
             in (Inr (uuidStr, workDir, sourceIpaPath, bundleID, appName), w)))
      else if ipaURL \<noteq> [] then
        (let uuidStr = uuid_New ow;
             workDir = filepath_Join [outputDir, uuidStr] in
         case os_MkdirAll ow workDir (disk w) of
           None \<Rightarrow> (Inl (JSON_error 500 ''Failed to create directory''), w)
         | Some fs1 \<Rightarrow>
            (let sourceIpaPath = filepath_Join [workDir, ''source.ipa''];
                 (err, w2) = downloadFile ow ipaURL sourceIpaPath (w\<lparr>disk := fs1\<rparr>) in
             case err of
               Some e \<Rightarrow>
                 (Inl (JSON_error 500 ''Failed to download IPA file''),
                  w2\<lparr>disk := os_RemoveAll workDir (disk w2)\<rparr>)
             | None \<Rightarrow>
                (let bundleID0 = bundle_id c;
                     appName0 = app_name c;
                     (bundleID, appName, w3) =
                       (if bundleID0 = [] \<or> appName0 = [] then
                          (case extractIPAInfo ow (disk w2) sourceIpaPath of
                             Inr (extractedBundleID, extractedAppName) \<Rightarrow>
                               (if bundleID0 = [] then extractedBundleID else bundleID0,
                                if appName0 = [] then extractedAppName else appName0,
                                w2\<lparr>trace := trace w2 @ [ZipOpen sourceIpaPath]\<rparr>)
                           | Inl e \<Rightarrow>
                               (bundleID0, appName0,
                                w2\<lparr>trace := trace w2 @ [ZipOpen sourceIpaPath]\<rparr>))
                        else (bundleID0, appName0, w2))
                 in (Inr (uuidStr, workDir, sourceIpaPath, bundleID, appName),
                     w3\<lparr>ipaCache := (ipaCache w3)(uuidStr \<mapsto>
                          \<lparr>OriginalURL = ipaURL, UUID = uuidStr, BundleID = bundleID,
                           AppName = appName, UploadedAt = time_Now ow\<rparr>)\<rparr>))))
      else (Inl (JSON_error 400 ''Either ipa_url or ipa_uuid must be provided''), w))"

text \<open>The arguments of the \<open>zsign\<close> command, lines 428 to 438.\<close>

definition zsign_args ::
  "string \<Rightarrow> string \<Rightarrow> string \<Rightarrow> string \<Rightarrow> string \<Rightarrow> string \<Rightarrow> string \<Rightarrow> string list" where
  "zsign_args p12Path mobileprovisionPath p12Password bundleID appName outputPath sourceIpaPath =
     [''-k'', p12Path,
      ''-m'', mobileprovisionPath,
      ''-p'', p12Password,
      ''-b'', bundleID,
      ''-n'', appName,
      ''-o'', outputPath,
      ''-z'', ''9'',
      sourceIpaPath]"

text \<open>Lines 387 to 476: the uploads, the checks, the signer and the manifest.\<close>

definition resign_sign ::
  "outside \<Rightarrow> form \<Rightarrow> string \<times> string \<times> string \<times> string \<times> string \<Rightarrow> world \<Rightarrow>
     response \<times> world" where
  "resign_sign ow c src w =
     (let (uuidStr, workDir, sourceIpaPath, bundleID, appName) = src in
      case p12 c of
        None \<Rightarrow> (JSON_error 400 ''Missing p12 file'', w)
      | Some p12_data \<Rightarrow>
         (let p12Path = filepath_Join [workDir, ''cert.p12''] in
          if SaveUploadedFile_err ow p12Path then
            (JSON_error 500 ''Failed to save p12 file'', w)
          else
            (let w1 = w\<lparr>disk := write_file p12Path p12_data (disk w)\<rparr> in
             case mobileprovision c of
               None \<Rightarrow> (JSON_error 400 ''Missing mobileprovision file'', w1)
             | Some mobileprovision_data \<Rightarrow>
                (let mobileprovisionPath = filepath_Join [workDir, ''profile.mobileprovision''] in
                 if SaveUploadedFile_err ow mobileprovisionPath then
                   (JSON_error 500 ''Failed to save mobileprovision file'', w1)
                 else
                   (let w2 = w1\<lparr>disk :=
                               write_file mobileprovisionPath mobileprovision_data (disk w1)\<rparr>;
                        p12Password = p12_password c in
                    if p12Password = [] then
                      (JSON_error 400 ''Missing p12_password parameter'', w2)
                    else if bundleID = [] \<or> appName = [] then
                      (JSON_error 400 ''Bundle ID and App Name must be provided'', w2)
                    else
                      (let outputPath = filepath_Join [workDir, ''resigned.ipa''];
                           args = zsign_args p12Path mobileprovisionPath p12Password
                                    bundleID appName outputPath sourceIpaPath;
                           (err, output, fs3) = zsign ow args (disk w2);
                           w3 = w2\<lparr>disk := fs3, trace := trace w2 @ [Exec ''zsign'' args]\<rparr> in
                       if err then (JSON_error_output 500 ''Signing failed'' output, w3)
                       else if \<not> os_Stat (disk w3) outputPath then
                         (JSON_error 500 ''Output file was not generated'', w3)
                       else
                         (let plistPath = filepath_Join [workDir, ''manifest.plist''];
                              ipaDownloadURL = download_url (baseURL w3) uuidStr ''resigned.ipa'';
                              plistContent = generatePlist ipaDownloadURL bundleID appName in
                          if WriteFile_err ow plistPath then
                            (JSON_error 500 ''Failed to create plist file'', w3)
                          else
                            (let plistURL = download_url (baseURL w3) uuidStr ''manifest.plist'';
                                 sourceURL = download_url (baseURL w3) uuidStr ''source.ipa'';
                                 resignedURL = download_url (baseURL w3) uuidStr ''resigned.ipa''
                             in (ResignJSON uuidStr plistURL sourceURL resignedURL bundleID appName,
                                 w3\<lparr>disk := write_file plistPath plistContent (disk w3)\<rparr>)))))))))"

definition resignHandler :: "outside \<Rightarrow> form \<Rightarrow> world \<Rightarrow> response \<times> world" where
  "resignHandler ow c w =
     (case resign_source ow c w of
        (Inl early, w1) \<Rightarrow> (early, w1)
      | (Inr src, w1) \<Rightarrow> resign_sign ow c src w1)"

subsection \<open>Notions used in the properties\<close>

text \<open>
  The names under which the handlers store artifacts in a working directory (lines 233,
  393, 405, 425 and 453): source archive, signed archive, manifest, credential, profile.
\<close>

definition artifact_names :: "string list" where
  "artifact_names =
     [''source.ipa'', ''resigned.ipa'', ''manifest.plist'', ''cert.p12'',
      ''profile.mobileprovision'']"

text \<open>The subprocesses launched so far.\<close>

fun is_Exec :: "event \<Rightarrow> bool" where
  "is_Exec (Exec name args) = True"
| "is_Exec (HttpGet url) = False"
| "is_Exec (ZipOpen p) = False"

definition launched :: "world \<Rightarrow> event list" where
  "launched w = filter is_Exec (trace w)"

text \<open>At most one key of the map holds a record of the given origin URL.\<close>

definition origin_unique :: "(string \<rightharpoonup> IPAInfo) \<Rightarrow> string \<Rightarrow> bool" where
  "origin_unique m url =
     (\<forall>k k' r r'. m k = Some r \<longrightarrow> m k' = Some r' \<longrightarrow>
        OriginalURL r = url \<longrightarrow> OriginalURL r' = url \<longrightarrow> k = k')"

text \<open>
  A name that is one element of a path: not empty, not \<open>.\<close> or \<open>..\<close>, and without a slash. (A
  route parameter of the router never contains a slash.)
\<close>

definition plain_name :: "string \<Rightarrow> bool" where
  "plain_name s = (s \<noteq> [] \<and> s \<noteq> ''.'' \<and> s \<noteq> ''..'' \<and> CHR ''/'' \<notin> set s)"

subsection \<open>Example inputs\<close>

text \<open>
  An environment in which every call succeeds. Three URLs answer with an archive: one
  whose \<open>Info.plist\<close> has a bundle identifier and a bundle name, one whose display name is
  the empty string, and one that is no zip file. Every other URL cannot be reached. The
  signer writes its output file and exits with status zero. \<open>os.Stat\<close> fails with
  \<open>invalid argument\<close> on a path that holds a NUL byte.
\<close>

definition example_outside :: outside where
  "example_outside =
     \<lparr>uuid_New = ''u1'', time_Now = 1, range_order = [],
      MkdirAll_err = (\<lambda>p. False),
      http_Get = (\<lambda>url.
        if url = ''https://x/app.ipa'' then Response 200 ''200 OK'' ''PK''
        else if url = ''https://x/empty.ipa'' then Response 200 ''200 OK'' ''PK2''
        else if url = ''https://x/junk.ipa'' then Response 200 ''200 OK'' ''junk''
        else GetErr ''connection refused''),
      Create_err = (\<lambda>p. None),
      Copy_err = None,
      zip_NewReader = (\<lambda>bytes.
        if bytes = ''junk'' then Inl ''zip: not a valid zip file''
        else Inr [ZipFile ''Payload/Example.app/Info.plist'' (Data bytes)]),
      plist_Unmarshal = (\<lambda>d.
        if d = ''PK'' then
          Inr [''CFBundleIdentifier'' \<mapsto> PString ''com.example.app'',
               ''CFBundleName'' \<mapsto> PString ''ExampleApp'']
        else if d = ''PK2'' then
          Inr [''CFBundleIdentifier'' \<mapsto> PString ''com.example.app'',
               ''CFBundleDisplayName'' \<mapsto> PString [],
               ''CFBundleName'' \<mapsto> PString ''ExampleApp'']
        else Inl ''unexpected EOF''),
      SaveUploadedFile_err = (\<lambda>p. False),
      Stat_err = (\<lambda>p. CHR 0x00 \<in> set p),
      zsign = (\<lambda>args fs. (False, ''done'', write_file (args ! 11) ''signed'' fs)),
      WriteFile_err = (\<lambda>p. False)\<rparr>"

definition example_world :: world where
  "example_world =
     \<lparr>baseURL = ''http://localhost:8080'', ipaCache = Map.empty,
      disk = \<lparr>dirs = {''output''}, files = Map.empty\<rparr>, trace = []\<rparr>"

definition example_form :: form where
  "example_form =
     \<lparr>ipa_url = ''https://x/app.ipa'', ipa_uuid = [], bundle_id = [], app_name = [],
      p12_password = [], p12 = None, mobileprovision = None\<rparr>"

text \<open>A \<open>/resign\<close> request for an IPA analyzed before, with both uploads and a password.\<close>

definition example_signing_form :: form where
  "example_signing_form =
     \<lparr>ipa_url = [], ipa_uuid = ''u1'', bundle_id = [], app_name = [],
      p12_password = ''secret'', p12 = Some ''cert'', mobileprovision = Some ''profile''\<rparr>"

definition example_disk :: filesystem where
  "example_disk =
     \<lparr>dirs = {''output'', ''output/u1'', ''output/u2''},
      files = [''output/u1/source.ipa'' \<mapsto> ''PK'', ''output/u2/source.ipa'' \<mapsto> ''PK2'']\<rparr>"

text \<open>
  The state after one \<open>/resign\<close> request for a URL, and after a second request for the same
  URL: neither request uploads a certificate, so both are answered with an error, after
  the download.
\<close>

definition world_one :: world where
  "world_one = snd (resignHandler example_outside example_form example_world)"

definition world_two :: world where
  "world_two =
     snd (resignHandler (example_outside\<lparr>uuid_New := ''u2'', time_Now := 2\<rparr>)
            example_form world_one)"

section \<open>Properties\<close>

subsection \<open>Paths of the examples\<close>

lemmas path_defs =
  filepath_Join_def filepath_Clean_def path_elems_def split_slash_def clean_step_def
  outputDir_def

lemma workDir_u1: "filepath_Join [outputDir, ''u1''] = ''output/u1''"
  by (simp add: path_defs)

lemma workDir_u2: "filepath_Join [outputDir, ''u2''] = ''output/u2''"
  by (simp add: path_defs)

lemma ancestors_u1: "ancestors ''output/u1'' = [''output'', ''output/u1'']"
  by (simp add: ancestors_def path_elems_def split_slash_def clean_step_def upt_rec)

lemma source_u1: "filepath_Join [''output/u1'', ''source.ipa''] = ''output/u1/source.ipa''"
  by (simp add: path_defs)

lemma source_u2: "filepath_Join [''output/u2'', ''source.ipa''] = ''output/u2/source.ipa''"
  by (simp add: path_defs)

subsection \<open>The example runs\<close>

lemmas run_defs =
  resignHandler_def resign_source_def resign_sign_def analyzeIPAHandler_def
  find_by_origin_def range_ipaCache_def os_MkdirAll_def downloadFile_def
  extractIPAInfo_def zip_OpenReader_def HasSuffix_def suffix_to_prefix assert_string_def
  download_url_def Let_def

lemma world_one_eq:
  "world_one =
     \<lparr>baseURL = ''http://localhost:8080'',
      ipaCache = [''u1'' \<mapsto> \<lparr>OriginalURL = ''https://x/app.ipa'', UUID = ''u1'',
                    BundleID = ''com.example.app'', AppName = ''ExampleApp'', UploadedAt = 1\<rparr>],
      disk = write_file ''output/u1/source.ipa'' ''PK''
               (mkdir_all ''output/u1'' \<lparr>dirs = {''output''}, files = Map.empty\<rparr>),
      trace = [HttpGet ''https://x/app.ipa'', ZipOpen ''output/u1/source.ipa'']\<rparr>"
  by (simp add: world_one_def example_outside_def example_form_def example_world_def run_defs
        workDir_u1 source_u1 write_file_def)

lemma world_two_cache:
  "ipaCache world_two =
     [''u1'' \<mapsto> \<lparr>OriginalURL = ''https://x/app.ipa'', UUID = ''u1'',
                    BundleID = ''com.example.app'', AppName = ''ExampleApp'', UploadedAt = 1\<rparr>,
      ''u2'' \<mapsto> \<lparr>OriginalURL = ''https://x/app.ipa'', UUID = ''u2'',
                    BundleID = ''com.example.app'', AppName = ''ExampleApp'', UploadedAt = 2\<rparr>]"
  by (simp add: world_two_def world_one_eq example_outside_def example_form_def run_defs
        workDir_u2 source_u2 write_file_def)

lemma world_two_baseURL: "baseURL world_two = ''http://localhost:8080''"
  by (simp add: world_two_def world_one_eq example_outside_def example_form_def run_defs
        workDir_u2 source_u2 write_file_def)

text \<open>An \<open>/analyze\<close> request for the URL, in the empty state, ends in the same state.\<close>

lemma analyze_example:
  "analyzeIPAHandler example_outside example_form example_world =
     (AnalyzeJSON ''u1'' ''com.example.app'' ''ExampleApp''
        ''http://localhost:8080/download/u1/source.ipa'' True, world_one)"
  by (simp add: world_one_eq)
     (simp add: example_outside_def example_form_def example_world_def run_defs
        workDir_u1 source_u1 write_file_def)

text \<open>An \<open>/analyze\<close> request that hits the index of \<open>world_two\<close>, the loop visiting \<open>u2\<close> first.\<close>

lemma analyze_world_two_u2:
  "analyzeIPAHandler (example_outside\<lparr>range_order := [''u2'', ''u1'']\<rparr>)
       example_form world_two =
     (AnalyzeJSON ''u2'' ''com.example.app'' ''ExampleApp''
        ''http://localhost:8080/download/u2/source.ipa'' True, world_two)"
  by (simp add: analyzeIPAHandler_def find_by_origin_def range_ipaCache_def
        world_two_cache world_two_baseURL example_form_def download_url_def)

text \<open>
  An \<open>/analyze\<close> request for another URL, for which the UUID drawn is \<open>u1\<close> again, the key of
  the record that \<open>world_one\<close> holds.
\<close>

lemma analyze_collision:
  "analyzeIPAHandler (example_outside\<lparr>range_order := [''u1'']\<rparr>)
       (example_form\<lparr>ipa_url := ''https://x/empty.ipa''\<rparr>) world_one =
     (AnalyzeJSON ''u1'' ''com.example.app'' []
        ''http://localhost:8080/download/u1/source.ipa'' True,
      world_one\<lparr>ipaCache := [''u1'' \<mapsto> \<lparr>OriginalURL = ''https://x/empty.ipa'', UUID = ''u1'',
                    BundleID = ''com.example.app'', AppName = [], UploadedAt = 1\<rparr>],
         disk := write_file ''output/u1/source.ipa'' ''PK2''
                   (mkdir_all ''output/u1'' (disk world_one)),
         trace := trace world_one @
                    [HttpGet ''https://x/empty.ipa'', ZipOpen ''output/u1/source.ipa'']\<rparr>)"
  by (simp add: world_one_eq example_outside_def example_form_def run_defs
        workDir_u1 source_u1 write_file_def mkdir_all_def)

text \<open>The signing request of the examples, run in \<open>world_one\<close>.\<close>

lemma resign_example:
  "resignHandler example_outside example_signing_form world_one =
     (ResignJSON ''u1'' ''http://localhost:8080/download/u1/manifest.plist''
        ''http://localhost:8080/download/u1/source.ipa''
        ''http://localhost:8080/download/u1/resigned.ipa'' ''com.example.app'' ''ExampleApp'',
      world_one\<lparr>disk :=
          write_file ''output/u1/manifest.plist''
            (generatePlist ''http://localhost:8080/download/u1/resigned.ipa''
               ''com.example.app'' ''ExampleApp'')
            (write_file ''output/u1/resigned.ipa'' ''signed''
               (write_file ''output/u1/profile.mobileprovision'' ''profile''
                  (write_file ''output/u1/cert.p12'' ''cert'' (disk world_one)))),
        trace := trace world_one @
          [Exec ''zsign''
             [''-k'', ''output/u1/cert.p12'', ''-m'', ''output/u1/profile.mobileprovision'',
              ''-p'', ''secret'', ''-b'', ''com.example.app'', ''-n'', ''ExampleApp'',
              ''-o'', ''output/u1/resigned.ipa'', ''-z'', ''9'', ''output/u1/source.ipa'']]\<rparr>)"
  by (simp add: world_one_eq example_outside_def example_signing_form_def
        resignHandler_def resign_source_def resign_sign_def zsign_args_def download_url_def
        Let_def path_defs write_file_def mkdir_all_def os_Stat_def)

text \<open>A \<open>/resign\<close> request for a URL whose archive is no zip file, with uploads and password.\<close>

lemma resign_junk:
  "resignHandler example_outside
       (example_signing_form\<lparr>ipa_url := ''https://x/junk.ipa'', ipa_uuid := []\<rparr>)
       example_world =
     (JSON_error 400 ''Bundle ID and App Name must be provided'',
      \<lparr>baseURL = ''http://localhost:8080'',
       ipaCache = [''u1'' \<mapsto> \<lparr>OriginalURL = ''https://x/junk.ipa'', UUID = ''u1'',
                     BundleID = [], AppName = [], UploadedAt = 1\<rparr>],
       disk = write_file ''output/u1/profile.mobileprovision'' ''profile''
                (write_file ''output/u1/cert.p12'' ''cert''
                   (write_file ''output/u1/source.ipa'' ''junk''
                      (mkdir_all ''output/u1'' \<lparr>dirs = {''output''}, files = Map.empty\<rparr>))),
       trace = [HttpGet ''https://x/junk.ipa'', ZipOpen ''output/u1/source.ipa'']\<rparr>)"
  by (simp add: example_outside_def example_signing_form_def example_world_def run_defs
        path_defs write_file_def mkdir_all_def)

text \<open>The request of \<open>example_form\<close> names an analyzed IPA but uploads nothing.\<close>

lemma resign_no_upload:
  "resignHandler example_outside (example_form\<lparr>ipa_uuid := ''u1''\<rparr>) world_one =
     (JSON_error 400 ''Missing p12 file'', world_one)"
  by (simp add: world_one_eq example_outside_def example_form_def
        resignHandler_def resign_source_def resign_sign_def Let_def)

subsection \<open>Plain names in a path\<close>

lemma split_acc_plain:
  "CHR ''/'' \<notin> set s \<Longrightarrow>
     split_slash_acc cur (s @ CHR ''/'' # rest) = (rev cur @ s) # split_slash_acc [] rest"
  by (induction s arbitrary: cur) auto

lemma split_acc_plain_end:
  "CHR ''/'' \<notin> set s \<Longrightarrow> split_slash_acc cur s = [rev cur @ s]"
  by (induction s arbitrary: cur) auto

lemma Join_plain:
  assumes "plain_name uuid" "plain_name filename"
  shows "filepath_Join [outputDir, uuid, filename] = ''output/'' @ uuid @ ''/'' @ filename"
proof -
  let ?p = "''./output/'' @ uuid @ CHR ''/'' # filename"
  from assms have ne: "uuid \<noteq> []" "filename \<noteq> []"
    and nd: "uuid \<noteq> ''.''" "uuid \<noteq> ''..''" "filename \<noteq> ''.''" "filename \<noteq> ''..''"
    and ns: "CHR ''/'' \<notin> set uuid" "CHR ''/'' \<notin> set filename"
    by (auto simp: plain_name_def)
  have sp: "split_slash ?p = [''.'', ''output'', uuid, filename]"
    using split_acc_plain [OF ns(1), of "[]" filename] split_acc_plain_end [OF ns(2), of "[]"]
    by (simp add: split_slash_def)
  have rel: "\<not> (?p \<noteq> [] \<and> hd ?p = CHR ''/'')" by simp
  have el: "path_elems ?p = [''output'', uuid, filename]"
    unfolding path_elems_def sp using ne nd rel by (simp add: clean_step_def)
  have cl: "filepath_Clean ?p = ''output/'' @ uuid @ ''/'' @ filename"
    unfolding filepath_Clean_def Let_def el using rel by simp
  have "filepath_Join [outputDir, uuid, filename] = filepath_Clean ?p"
    using ne by (simp add: filepath_Join_def outputDir_def)
  with cl show ?thesis by simp
qed

subsection \<open>What the parts of a handler leave alone\<close>

lemma downloadFile_keeps:
  "downloadFile ow url p w = (e, w') \<Longrightarrow> ipaCache w' = ipaCache w \<and> baseURL w' = baseURL w"
  by (auto simp: downloadFile_def Let_def
      split: http_result.splits if_splits option.splits prod.splits)

lemma downloadFile_trace:
  "downloadFile ow url p w = (e, w') \<Longrightarrow> trace w' = trace w @ [HttpGet url]"
  by (auto simp: downloadFile_def Let_def
      split: http_result.splits if_splits option.splits prod.splits)

lemma resign_source_launched:
  "resign_source ow c w = (x, w') \<Longrightarrow> launched w' = launched w"
  by (auto simp: resign_source_def launched_def Let_def
      split: if_splits option.splits sum.splits prod.splits dest!: downloadFile_trace)

lemma resign_source_fresh:
  assumes "ipa_uuid c = []" and "resign_source ow c w = (Inr (u, wd, sp, b, a), w')"
  shows "ipa_url c \<noteq> [] \<and> u = uuid_New ow \<and> baseURL w' = baseURL w \<and>
         ipaCache w' = (ipaCache w)(u \<mapsto> \<lparr>OriginalURL = ipa_url c, UUID = u, BundleID = b,
                                  AppName = a, UploadedAt = time_Now ow\<rparr>)"
  using assms
  by (auto simp: resign_source_def Let_def
      split: if_splits option.splits sum.splits prod.splits dest!: downloadFile_keeps)

lemma resign_sign_keeps:
  "resign_sign ow c src w = (resp, w') \<Longrightarrow> ipaCache w' = ipaCache w \<and> baseURL w' = baseURL w"
  by (cases src) (auto simp: resign_sign_def Let_def split: if_splits option.splits prod.splits)

lemma resign_sign_refused:
  assumes "p12_password c = [] \<or> b = [] \<or> a = []"
    and "resign_sign ow c (u, wd, sp, b, a) w = (resp, w')"
  shows "(\<exists>code msg. resp = JSON_error code msg) \<and> trace w' = trace w"
  using assms
  by (auto simp: resign_sign_def Let_def split: if_splits option.splits prod.splits)

subsection \<open>The scan of the index\<close>

lemma find_by_origin_SomeD:
  "find_by_origin order m url = Some info \<Longrightarrow>
     OriginalURL info = url \<and> (\<exists>k \<in> set order. m k = Some info)"
  unfolding find_by_origin_def range_ipaCache_def
  by (induction order) (auto split: option.splits if_splits)

lemma find_by_origin_NoneD:
  "find_by_origin order m url = None \<Longrightarrow> k \<in> set order \<Longrightarrow> m k = Some r \<Longrightarrow>
     OriginalURL r \<noteq> url"
  unfolding find_by_origin_def range_ipaCache_def
  by (induction order) (auto split: option.splits if_splits)

lemma find_by_origin_hit:
  assumes "range_ok order m" "m k = Some r" "OriginalURL r = url"
  shows "\<exists>info. find_by_origin order m url = Some info"
proof (cases "find_by_origin order m url")
  case None
  from assms have "k \<in> set order" by (auto simp: range_ok_def)
  with None assms show ?thesis by (auto dest: find_by_origin_NoneD)
qed simp

lemma find_by_origin_unique:
  assumes "range_ok order m" "m k = Some r" "OriginalURL r = url" "origin_unique m url"
  shows "find_by_origin order m url = Some r"
proof -
  from find_by_origin_hit [OF assms(1-3)] obtain info
    where hit: "find_by_origin order m url = Some info" by blast
  then obtain k' where "m k' = Some info" "OriginalURL info = url"
    by (auto dest: find_by_origin_SomeD)
  with assms(2-4) have "k' = k" unfolding origin_unique_def by blast
  with \<open>m k' = Some info\<close> assms(2) hit show ?thesis by simp
qed

lemma origin_unique_after_miss:
  assumes ok: "range_ok order m" and miss: "find_by_origin order m url = None"
    and r: "OriginalURL r = url"
  shows "origin_unique (m(u \<mapsto> r)) url"
proof -
  have no: "\<And>k x. m k = Some x \<Longrightarrow> OriginalURL x \<noteq> url"
  proof -
    fix k x assume "m k = Some x"
    moreover from this ok have "k \<in> set order" by (auto simp: range_ok_def)
    ultimately show "OriginalURL x \<noteq> url" using miss by (auto dest: find_by_origin_NoneD)
  qed
  show ?thesis
    unfolding origin_unique_def using no r by (auto split: if_splits)
qed

text \<open>
  C2 (as amended). When the index holds a record of the origin URL and the loop visits
  the keys of the map in any order, the scan returns a record that is stored in the index
  and has that origin URL; it is the record given when no other key holds a record of
  that URL. Which of several records is returned is decided by the order of the loop.
\<close>

theorem find_by_origin_some_record:
  assumes "range_ok order m" and "m k = Some r" and "OriginalURL r = url"
  shows "\<exists>k' r'. find_by_origin order m url = Some r' \<and> m k' = Some r' \<and>
           OriginalURL r' = url \<and> (origin_unique m url \<longrightarrow> r' = r)"
proof -
  from find_by_origin_hit [OF assms] obtain info
    where hit: "find_by_origin order m url = Some info" by blast
  then obtain k' where k': "m k' = Some info" "OriginalURL info = url"
    by (auto dest: find_by_origin_SomeD)
  have "origin_unique m url \<longrightarrow> info = r"
    using find_by_origin_unique [OF assms] hit by auto
  with hit k' show ?thesis by blast
qed

theorem find_by_origin_some_record_witness:
  "range_ok [''u1''] (ipaCache world_one) \<and>
   origin_unique (ipaCache world_one) ''https://x/app.ipa'' \<and>
   find_by_origin [''u1''] (ipaCache world_one) ''https://x/app.ipa'' =
     Some \<lparr>OriginalURL = ''https://x/app.ipa'', UUID = ''u1'',
            BundleID = ''com.example.app'', AppName = ''ExampleApp'', UploadedAt = 1\<rparr>"
proof -
  let ?r = "\<lparr>OriginalURL = ''https://x/app.ipa'', UUID = ''u1'',
             BundleID = ''com.example.app'', AppName = ''ExampleApp'', UploadedAt = 1\<rparr>"
  have ok: "range_ok [''u1''] (ipaCache world_one)"
    by (simp add: world_one_eq range_ok_def)
  have at: "ipaCache world_one ''u1'' = Some ?r"
    by (simp add: world_one_eq)
  have uniq: "origin_unique (ipaCache world_one) ''https://x/app.ipa''"
    by (auto simp: world_one_eq origin_unique_def split: if_splits)
  from find_by_origin_some_record [OF ok at, of "''https://x/app.ipa''"] uniq
  have "find_by_origin [''u1''] (ipaCache world_one) ''https://x/app.ipa'' = Some ?r"
    by auto
  with ok uniq show ?thesis by simp
qed

text \<open>
  C2 as stated fails. Two \<open>/resign\<close> requests for one URL store two records, under \<open>u1\<close>
  and then under \<open>u2\<close>: after the first request the index holds \<open>u1\<close> and not \<open>u2\<close>. A loop
  that visits \<open>u2\<close> before \<open>u1\<close> returns the record stored second.
\<close>

theorem find_by_origin_later_record:
  "ipaCache world_one ''u1'' \<noteq> None \<and> ipaCache world_one ''u2'' = None \<and>
   range_ok [''u2'', ''u1''] (ipaCache world_two) \<and>
   find_by_origin [''u2'', ''u1''] (ipaCache world_two) ''https://x/app.ipa'' =
     Some \<lparr>OriginalURL = ''https://x/app.ipa'', UUID = ''u2'',
            BundleID = ''com.example.app'', AppName = ''ExampleApp'', UploadedAt = 2\<rparr>"
  by (simp add: world_one_eq world_two_cache range_ok_def find_by_origin_def
        range_ipaCache_def)

subsection \<open>\<open>analyzeIPAHandler\<close>\<close>

lemma analyze_hit:
  "ipa_url c \<noteq> [] \<Longrightarrow>
   find_by_origin (range_order ow) (ipaCache w) (ipa_url c) = Some info \<Longrightarrow>
   analyzeIPAHandler ow c w =
     (AnalyzeJSON (UUID info) (BundleID info) (AppName info)
        (download_url (baseURL w) (UUID info) ''source.ipa'') True, w)"
  by (simp add: analyzeIPAHandler_def)

text \<open>A successful \<open>/analyze\<close> request either hit the index or stored a new record.\<close>

lemma analyze_success_cases:
  assumes "analyzeIPAHandler ow c w = (AnalyzeJSON u b a s f, w')"
  shows "ipa_url c \<noteq> [] \<and> f = True \<and> s = download_url (baseURL w) u ''source.ipa'' \<and>
     ((\<exists>info. find_by_origin (range_order ow) (ipaCache w) (ipa_url c) = Some info \<and>
          u = UUID info \<and> b = BundleID info \<and> a = AppName info \<and> w' = w) \<or>
      (find_by_origin (range_order ow) (ipaCache w) (ipa_url c) = None \<and> u = uuid_New ow \<and>
       baseURL w' = baseURL w \<and>
       ipaCache w' = (ipaCache w)(u \<mapsto> \<lparr>OriginalURL = ipa_url c, UUID = u, BundleID = b,
                                AppName = a, UploadedAt = time_Now ow\<rparr>)))"
  using assms
  by (auto simp: analyzeIPAHandler_def Let_def
      split: if_splits option.splits sum.splits prod.splits dest!: downloadFile_keeps)

text \<open>
  C6 (as amended). When an \<open>/analyze\<close> request succeeds, a second request for the same URL
  right after it succeeds too and leaves the whole state as it is: no download, no
  extraction, no new directory, no new record. It returns the same identifier and
  metadata when, before the first request, at most one key of the index held a record of
  that URL (so always when the first request found none).
\<close>

theorem analyze_twice:
  assumes first: "analyzeIPAHandler ow1 c w = (AnalyzeJSON u b a s f, w1)"
    and ok1: "range_ok (range_order ow1) (ipaCache w)"
    and ok2: "range_ok (range_order ow2) (ipaCache w1)"
  shows "\<exists>u' b' a' s' f'.
           analyzeIPAHandler ow2 c w1 = (AnalyzeJSON u' b' a' s' f', w1) \<and>
           (origin_unique (ipaCache w) (ipa_url c) \<longrightarrow>
              u' = u \<and> b' = b \<and> a' = a \<and> s' = s \<and> f' = f)"
proof -
  let ?url = "ipa_url c"
  from analyze_success_cases [OF first]
  have url: "?url \<noteq> []" and f: "f = True"
    and s: "s = download_url (baseURL w) u ''source.ipa''"
    and cases: "(\<exists>info. find_by_origin (range_order ow1) (ipaCache w) ?url = Some info \<and>
          u = UUID info \<and> b = BundleID info \<and> a = AppName info \<and> w1 = w) \<or>
      (find_by_origin (range_order ow1) (ipaCache w) ?url = None \<and> u = uuid_New ow1 \<and>
       baseURL w1 = baseURL w \<and>
       ipaCache w1 = (ipaCache w)(u \<mapsto> \<lparr>OriginalURL = ?url, UUID = u, BundleID = b,
                                AppName = a, UploadedAt = time_Now ow1\<rparr>))"
    by blast+
  from cases show ?thesis
  proof
    assume "\<exists>info. find_by_origin (range_order ow1) (ipaCache w) ?url = Some info \<and>
          u = UUID info \<and> b = BundleID info \<and> a = AppName info \<and> w1 = w"
    then obtain info
      where hit1: "find_by_origin (range_order ow1) (ipaCache w) ?url = Some info"
        and eqs: "u = UUID info" "b = BundleID info" "a = AppName info" "w1 = w"
      by blast
    from hit1 obtain k where k: "ipaCache w k = Some info" "OriginalURL info = ?url"
      by (auto dest: find_by_origin_SomeD)
    from ok2 eqs have ok2': "range_ok (range_order ow2) (ipaCache w)" by simp
    from find_by_origin_hit [OF ok2' k] obtain info2
      where hit2: "find_by_origin (range_order ow2) (ipaCache w) ?url = Some info2" by blast
    have same: "origin_unique (ipaCache w) ?url \<longrightarrow> info2 = info"
      using find_by_origin_unique [OF ok2' k] hit2 by auto
    from analyze_hit [OF url hit2] eqs s f same show ?thesis by auto
  next
    assume miss: "find_by_origin (range_order ow1) (ipaCache w) ?url = None \<and>
       u = uuid_New ow1 \<and> baseURL w1 = baseURL w \<and>
       ipaCache w1 = (ipaCache w)(u \<mapsto> \<lparr>OriginalURL = ?url, UUID = u, BundleID = b,
                                AppName = a, UploadedAt = time_Now ow1\<rparr>)"
    let ?r = "\<lparr>OriginalURL = ?url, UUID = u, BundleID = b, AppName = a,
               UploadedAt = time_Now ow1\<rparr>"
    from miss have c1: "ipaCache w1 = (ipaCache w)(u \<mapsto> ?r)"
      and base: "baseURL w1 = baseURL w" by simp_all
    have uniq: "origin_unique (ipaCache w1) ?url"
      using origin_unique_after_miss [OF ok1, of ?url ?r u] miss c1 by simp
    have at: "ipaCache w1 u = Some ?r" using c1 by simp
    have "find_by_origin (range_order ow2) (ipaCache w1) ?url = Some ?r"
      using find_by_origin_unique [OF ok2 at _ uniq] by simp
    from analyze_hit [OF url this] s f base show ?thesis by auto
  qed
qed

theorem analyze_twice_witness:
  "analyzeIPAHandler example_outside example_form example_world =
     (AnalyzeJSON ''u1'' ''com.example.app'' ''ExampleApp''
        ''http://localhost:8080/download/u1/source.ipa'' True, world_one) \<and>
   analyzeIPAHandler (example_outside\<lparr>uuid_New := ''u2'', range_order := [''u1'']\<rparr>)
       example_form world_one =
     (AnalyzeJSON ''u1'' ''com.example.app'' ''ExampleApp''
        ''http://localhost:8080/download/u1/source.ipa'' True, world_one)"
proof -
  let ?ow2 = "example_outside\<lparr>uuid_New := ''u2'', range_order := [''u1'']\<rparr>"
  have ok1: "range_ok (range_order example_outside) (ipaCache example_world)"
    by (simp add: range_ok_def example_outside_def example_world_def)
  have ok2: "range_ok (range_order ?ow2) (ipaCache world_one)"
    by (simp add: range_ok_def world_one_eq)
  have uniq: "origin_unique (ipaCache example_world) (ipa_url example_form)"
    by (simp add: origin_unique_def example_world_def)
  from analyze_twice [OF analyze_example ok1 ok2] uniq analyze_example
  show ?thesis by auto
qed

text \<open>
  C6 as stated fails. After two \<open>/resign\<close> requests for one URL the index holds two
  records of it. Two \<open>/analyze\<close> requests in sequence both hit the index, and the loop of
  the first visits \<open>u1\<close> first, the loop of the second \<open>u2\<close>: the identifiers differ.
\<close>

theorem analyze_twice_two_identifiers:
  "analyzeIPAHandler (example_outside\<lparr>range_order := [''u1'', ''u2'']\<rparr>)
       example_form world_two =
     (AnalyzeJSON ''u1'' ''com.example.app'' ''ExampleApp''
        ''http://localhost:8080/download/u1/source.ipa'' True, world_two) \<and>
   analyzeIPAHandler (example_outside\<lparr>range_order := [''u2'', ''u1'']\<rparr>)
       example_form world_two =
     (AnalyzeJSON ''u2'' ''com.example.app'' ''ExampleApp''
        ''http://localhost:8080/download/u2/source.ipa'' True, world_two) \<and>
   range_ok [''u1'', ''u2''] (ipaCache world_two) \<and>
   range_ok [''u2'', ''u1''] (ipaCache world_two)"
  by (simp add: analyzeIPAHandler_def find_by_origin_def range_ipaCache_def
        world_two_cache world_two_baseURL example_form_def download_url_def range_ok_def)
     auto

text \<open>
  C10. Every successful answer of \<open>analyzeIPAHandler\<close> carries the flag \<open>analyzed\<close> with the
  value true, on a hit of the index and after a first analysis alike.
\<close>

theorem analyzed_flag_true:
  assumes "analyzeIPAHandler ow c w = (AnalyzeJSON u b a s analyzed, w')"
  shows "analyzed = True"
  using analyze_success_cases [OF assms] by simp

theorem analyzed_flag_true_witness:
  "fst (analyzeIPAHandler example_outside example_form example_world) =
     AnalyzeJSON ''u1'' ''com.example.app'' ''ExampleApp''
       ''http://localhost:8080/download/u1/source.ipa'' True \<and>
   fst (analyzeIPAHandler (example_outside\<lparr>range_order := [''u2'', ''u1'']\<rparr>)
          example_form world_two) =
     AnalyzeJSON ''u2'' ''com.example.app'' ''ExampleApp''
       ''http://localhost:8080/download/u2/source.ipa'' True"
  using analyzed_flag_true [OF analyze_example] analyzed_flag_true [OF analyze_world_two_u2]
    analyze_example analyze_world_two_u2
  by simp

text \<open>
  C1: what the code does when the download fails. The connection breaks after one byte
  of the body. \<open>analyzeIPAHandler\<close> answers with the error of the download and stores no
  record, but returns without removing the working directory: \<open>output/u1\<close> stays, with
  the one byte in \<open>source.ipa\<close>. \<open>resignHandler\<close>, on the same failure, calls
  \<open>os.RemoveAll\<close> and leaves nothing.
\<close>

theorem analyze_failed_download_leaves_directory:
  "fst (analyzeIPAHandler (example_outside\<lparr>Copy_err := Some (1, ''unexpected EOF'')\<rparr>)
          example_form example_world) =
     JSON_error 500 ''Failed to download IPA file: unexpected EOF'' \<and>
   ipaCache (snd (analyzeIPAHandler (example_outside\<lparr>Copy_err := Some (1, ''unexpected EOF'')\<rparr>)
                    example_form example_world)) = Map.empty \<and>
   ''output/u1'' \<in> dirs (disk (snd (analyzeIPAHandler
        (example_outside\<lparr>Copy_err := Some (1, ''unexpected EOF'')\<rparr>)
        example_form example_world))) \<and>
   files (disk (snd (analyzeIPAHandler
        (example_outside\<lparr>Copy_err := Some (1, ''unexpected EOF'')\<rparr>)
        example_form example_world))) ''output/u1/source.ipa'' = Some ''P'' \<and>
   ''output/u1'' \<notin> dirs (disk (snd (resignHandler
        (example_outside\<lparr>Copy_err := Some (1, ''unexpected EOF'')\<rparr>)
        example_form example_world))) \<and>
   files (disk (snd (resignHandler
        (example_outside\<lparr>Copy_err := Some (1, ''unexpected EOF'')\<rparr>)
        example_form example_world))) ''output/u1/source.ipa'' = None"
  by (simp add: example_outside_def example_form_def example_world_def run_defs
        workDir_u1 source_u1 write_file_def mkdir_all_def ancestors_u1 os_RemoveAll_def
        inside_def path_elems_def split_slash_def clean_step_def)

subsection \<open>Storing a record\<close>

text \<open>
  C3 (as amended). Storing a record under an identifier that the index already holds
  does not fail: the assignment to the map replaces the record. Let the UUID drawn be a
  key of the index, the working directory be made and the download succeed. Then
  \<open>analyzeIPAHandler\<close>, after a miss of the scan and a successful extraction, answers with
  status 200 and the new identifier and metadata; and \<open>resignHandler\<close>, given a fresh URL,
  goes on to the uploads and the signing with the new identifier. In both the index has
  the same keys as before and holds the new record under that key.
\<close>

theorem store_replaces_record:
  fixes ow :: outside and c :: form and w w2 :: world and old :: IPAInfo
    and b a uuidStr workDir ipaPath :: string
  defines "uuidStr \<equiv> uuid_New ow"
    and "workDir \<equiv> filepath_Join [outputDir, uuidStr]"
    and "ipaPath \<equiv> filepath_Join [workDir, ''source.ipa'']"
  assumes dup: "ipaCache w uuidStr = Some old"
    and mk: "\<not> MkdirAll_err ow workDir"
    and dl: "downloadFile ow (ipa_url c) ipaPath (w\<lparr>disk := mkdir_all workDir (disk w)\<rparr>) =
               (None, w2)"
  shows "(ipa_url c \<noteq> [] \<and>
          find_by_origin (range_order ow) (ipaCache w) (ipa_url c) = None \<and>
          extractIPAInfo ow (disk w2) ipaPath = Inr (b, a) \<longrightarrow>
            (\<exists>w'. analyzeIPAHandler ow c w =
                     (AnalyzeJSON uuidStr b a
                        (download_url (baseURL w) uuidStr ''source.ipa'') True, w') \<and>
                   dom (ipaCache w') = dom (ipaCache w) \<and>
                   ipaCache w' = (ipaCache w)(uuidStr \<mapsto>
                     \<lparr>OriginalURL = ipa_url c, UUID = uuidStr, BundleID = b, AppName = a,
                      UploadedAt = time_Now ow\<rparr>))) \<and>
         (ipa_uuid c = [] \<and> ipa_url c \<noteq> [] \<longrightarrow>
            (\<exists>b2 a2 w1.
               resign_source ow c w = (Inr (uuidStr, workDir, ipaPath, b2, a2), w1) \<and>
               resignHandler ow c w = resign_sign ow c (uuidStr, workDir, ipaPath, b2, a2) w1 \<and>
               dom (ipaCache w1) = dom (ipaCache w) \<and>
               ipaCache w1 = (ipaCache w)(uuidStr \<mapsto>
                 \<lparr>OriginalURL = ipa_url c, UUID = uuidStr, BundleID = b2, AppName = a2,
                  UploadedAt = time_Now ow\<rparr>)))"
proof (intro conjI impI)
  from downloadFile_keeps [OF dl]
  have keep: "ipaCache w2 = ipaCache w" "baseURL w2 = baseURL w" by simp_all
  from dup have dom: "\<And>r. dom ((ipaCache w)(uuidStr \<mapsto> r)) = dom (ipaCache w)" by auto
  {
    assume h: "ipa_url c \<noteq> [] \<and>
          find_by_origin (range_order ow) (ipaCache w) (ipa_url c) = None \<and>
          extractIPAInfo ow (disk w2) ipaPath = Inr (b, a)"
    let ?r = "\<lparr>OriginalURL = ipa_url c, UUID = uuidStr, BundleID = b, AppName = a,
                      UploadedAt = time_Now ow\<rparr>"
    let ?w' = "w2\<lparr>trace := trace w2 @ [ZipOpen ipaPath],
                  ipaCache := (ipaCache w)(uuidStr \<mapsto> ?r)\<rparr>"
    have "analyzeIPAHandler ow c w =
            (AnalyzeJSON uuidStr b a (download_url (baseURL w) uuidStr ''source.ipa'') True, ?w')"
      using h mk dl keep
      by (simp add: analyzeIPAHandler_def os_MkdirAll_def Let_def uuidStr_def [symmetric]
            workDir_def [symmetric] ipaPath_def [symmetric])
    moreover have "dom (ipaCache ?w') = dom (ipaCache w)" using dom by simp
    moreover have "ipaCache ?w' = (ipaCache w)(uuidStr \<mapsto> ?r)" by simp
    ultimately show "\<exists>w'. analyzeIPAHandler ow c w =
                     (AnalyzeJSON uuidStr b a
                        (download_url (baseURL w) uuidStr ''source.ipa'') True, w') \<and>
                   dom (ipaCache w') = dom (ipaCache w) \<and>
                   ipaCache w' = (ipaCache w)(uuidStr \<mapsto> ?r)"
      by blast
  }
  {
    assume h: "ipa_uuid c = [] \<and> ipa_url c \<noteq> []"
    obtain x w1 where rs: "resign_source ow c w = (x, w1)"
      by (cases "resign_source ow c w") blast
    from rs h mk dl obtain b2 a2 where x: "x = Inr (uuidStr, workDir, ipaPath, b2, a2)"
      by (auto simp: resign_source_def os_MkdirAll_def Let_def uuidStr_def [symmetric]
            workDir_def [symmetric] ipaPath_def [symmetric]
          split: if_splits sum.splits prod.splits)
    from resign_source_fresh [of c ow w uuidStr workDir ipaPath b2 a2 w1] h rs x
    have cache: "ipaCache w1 = (ipaCache w)(uuidStr \<mapsto>
                 \<lparr>OriginalURL = ipa_url c, UUID = uuidStr, BundleID = b2, AppName = a2,
                  UploadedAt = time_Now ow\<rparr>)"
      by simp
    have run: "resignHandler ow c w = resign_sign ow c (uuidStr, workDir, ipaPath, b2, a2) w1"
      using rs x by (simp add: resignHandler_def)
    from rs x run cache dom
    show "\<exists>b2 a2 w1.
               resign_source ow c w = (Inr (uuidStr, workDir, ipaPath, b2, a2), w1) \<and>
               resignHandler ow c w = resign_sign ow c (uuidStr, workDir, ipaPath, b2, a2) w1 \<and>
               dom (ipaCache w1) = dom (ipaCache w) \<and>
               ipaCache w1 = (ipaCache w)(uuidStr \<mapsto>
                 \<lparr>OriginalURL = ipa_url c, UUID = uuidStr, BundleID = b2, AppName = a2,
                  UploadedAt = time_Now ow\<rparr>)"
      by auto
  }
qed

theorem store_replaces_record_witness:
  "ipaCache world_one ''u1'' =
     Some \<lparr>OriginalURL = ''https://x/app.ipa'', UUID = ''u1'',
            BundleID = ''com.example.app'', AppName = ''ExampleApp'', UploadedAt = 1\<rparr> \<and>
   (\<exists>w'. analyzeIPAHandler (example_outside\<lparr>range_order := [''u1'']\<rparr>)
            (example_form\<lparr>ipa_url := ''https://x/empty.ipa''\<rparr>) world_one =
          (AnalyzeJSON ''u1'' ''com.example.app'' []
             ''http://localhost:8080/download/u1/source.ipa'' True, w') \<and>
        dom (ipaCache w') = dom (ipaCache world_one)) \<and>
   (\<exists>b2 a2 w1. resign_source (example_outside\<lparr>range_order := [''u1'']\<rparr>)
            (example_form\<lparr>ipa_url := ''https://x/empty.ipa''\<rparr>) world_one =
          (Inr (''u1'', ''output/u1'', ''output/u1/source.ipa'', b2, a2), w1) \<and>
        dom (ipaCache w1) = dom (ipaCache world_one))"
proof -
  let ?ow = "example_outside\<lparr>range_order := [''u1'']\<rparr>"
  let ?c = "example_form\<lparr>ipa_url := ''https://x/empty.ipa''\<rparr>"
  let ?old = "\<lparr>OriginalURL = ''https://x/app.ipa'', UUID = ''u1'',
            BundleID = ''com.example.app'', AppName = ''ExampleApp'', UploadedAt = 1\<rparr>"
  let ?w2 = "world_one\<lparr>disk := write_file ''output/u1/source.ipa'' ''PK2''
                   (mkdir_all ''output/u1'' (disk world_one)),
         trace := trace world_one @ [HttpGet ''https://x/empty.ipa'']\<rparr>"
  have u: "uuid_New example_outside = ''u1''" by (simp add: example_outside_def)
  have wd: "filepath_Join [outputDir, uuid_New ?ow] = ''output/u1''"
    by (simp add: example_outside_def workDir_u1)
  have sp: "filepath_Join [filepath_Join [outputDir, uuid_New ?ow], ''source.ipa''] =
      ''output/u1/source.ipa''"
    by (simp add: example_outside_def workDir_u1 source_u1)
  have dup: "ipaCache world_one (uuid_New ?ow) = Some ?old"
    by (simp add: world_one_eq u)
  have at: "ipaCache world_one ''u1'' = Some ?old"
    by (simp add: world_one_eq)
  have mk: "\<not> MkdirAll_err ?ow (filepath_Join [outputDir, uuid_New ?ow])"
    by (simp add: example_outside_def)
  have dl: "downloadFile ?ow (ipa_url ?c)
      (filepath_Join [filepath_Join [outputDir, uuid_New ?ow], ''source.ipa''])
      (world_one\<lparr>disk := mkdir_all (filepath_Join [outputDir, uuid_New ?ow])
                             (disk world_one)\<rparr>) = (None, ?w2)"
    by (simp add: example_outside_def example_form_def downloadFile_def Let_def
          workDir_u1 source_u1)
  have miss: "find_by_origin (range_order ?ow) (ipaCache world_one) (ipa_url ?c) = None"
    by (simp add: find_by_origin_def range_ipaCache_def world_one_eq)
  have ex: "extractIPAInfo ?ow (disk ?w2)
      (filepath_Join [filepath_Join [outputDir, uuid_New ?ow], ''source.ipa'']) =
      Inr (''com.example.app'', [])"
    by (simp add: example_outside_def extractIPAInfo_def zip_OpenReader_def write_file_def
          HasSuffix_def suffix_to_prefix assert_string_def workDir_u1 source_u1)
  have url: "ipa_url ?c \<noteq> []" "ipa_uuid ?c = []" by (simp_all add: example_form_def)
  have base: "baseURL world_one = ''http://localhost:8080''" by (simp add: world_one_eq)
  from store_replaces_record [OF dup mk dl, of "''com.example.app''" "[]"] miss ex url
  show ?thesis
    by (simp add: u workDir_u1 source_u1 base download_url_def at) blast
qed

text \<open>
  C3 as stated fails. The index holds a record under \<open>u1\<close>; an \<open>/analyze\<close> request for
  another URL draws \<open>u1\<close> again. The request succeeds and the record under \<open>u1\<close> is the new
  one.
\<close>

theorem store_replaces_record_counterexample:
  "ipaCache world_one ''u1'' =
     Some \<lparr>OriginalURL = ''https://x/app.ipa'', UUID = ''u1'',
            BundleID = ''com.example.app'', AppName = ''ExampleApp'', UploadedAt = 1\<rparr> \<and>
   fst (analyzeIPAHandler (example_outside\<lparr>range_order := [''u1'']\<rparr>)
          (example_form\<lparr>ipa_url := ''https://x/empty.ipa''\<rparr>) world_one) =
     AnalyzeJSON ''u1'' ''com.example.app'' []
       ''http://localhost:8080/download/u1/source.ipa'' True \<and>
   ipaCache (snd (analyzeIPAHandler (example_outside\<lparr>range_order := [''u1'']\<rparr>)
                    (example_form\<lparr>ipa_url := ''https://x/empty.ipa''\<rparr>) world_one)) ''u1'' =
     Some \<lparr>OriginalURL = ''https://x/empty.ipa'', UUID = ''u1'',
            BundleID = ''com.example.app'', AppName = [], UploadedAt = 1\<rparr>"
  by (simp add: analyze_collision) (simp add: world_one_eq)

subsection \<open>\<open>downloadHandler\<close>\<close>

text \<open>
  C4 (as amended). For every identifier and filename, whether or not the filename is
  one of the artifact names, \<open>downloadHandler\<close> joins them onto the output directory and
  asks \<open>os.Stat\<close> for that path. When \<open>os.Stat\<close> reports that the path does not exist, the
  answer is 404 \<open>File not found\<close>; in every other case (something is there, or \<open>os.Stat\<close>
  fails otherwise) the handler sets the headers that go with the suffix of the filename
  and calls \<open>c.File\<close> on the path. For plain names the path is \<open>output/uuid/filename\<close>. No
  filename is rejected for its name.
\<close>

theorem download_any_name:
  fixes ow :: outside and uuid filename filePath :: string and w :: world
  defines "filePath \<equiv> filepath_Join [outputDir, uuid, filename]"
  shows "(Stat_IsNotExist ow (disk w) filePath \<longrightarrow>
            downloadHandler ow uuid filename w = (JSON_error 404 ''File not found'', w)) \<and>
         (\<not> Stat_IsNotExist ow (disk w) filePath \<longrightarrow>
            downloadHandler ow uuid filename w =
              (c_File filePath
                 (if HasSuffix filename ''.ipa'' then
                    [(''Content-Type'', ''application/octet-stream''),
                     (''Content-Disposition'', ''attachment; filename='' @ filename)]
                  else if HasSuffix filename ''.plist'' then
                    [(''Content-Type'', ''application/xml'')]
                  else []),
               w)) \<and>
         (plain_name uuid \<and> plain_name filename \<longrightarrow>
            filePath = ''output/'' @ uuid @ ''/'' @ filename)"
  using Join_plain [of uuid filename]
  by (simp add: downloadHandler_def Let_def filePath_def)

theorem download_any_name_witness:
  "downloadHandler example_outside ''u1'' ''notes.txt'' example_world =
     (JSON_error 404 ''File not found'', example_world) \<and>
   downloadHandler example_outside ''u1'' ''source.ipa'' world_one =
     (c_File ''output/u1/source.ipa''
        [(''Content-Type'', ''application/octet-stream''),
         (''Content-Disposition'', ''attachment; filename=source.ipa'')],
      world_one) \<and>
   downloadHandler example_outside ''u1'' [CHR ''a'', CHR 0x00] example_world =
     (c_File [CHR ''o'', CHR ''u'', CHR ''t'', CHR ''p'', CHR ''u'', CHR ''t'', CHR ''/'',
              CHR ''u'', CHR ''1'', CHR ''/'', CHR ''a'', CHR 0x00] [],
      example_world)"
proof -
  have p: "plain_name ''u1''" "plain_name ''notes.txt''" "plain_name ''source.ipa''"
      "plain_name [CHR ''a'', CHR 0x00]"
    by (simp_all add: plain_name_def)
  note at_notes = download_any_name [where ow = example_outside and w = example_world
      and uuid = "''u1''" and filename = "''notes.txt''"]
  note at_source = download_any_name [where ow = example_outside and w = world_one
      and uuid = "''u1''" and filename = "''source.ipa''"]
  note at_nul = download_any_name [where ow = example_outside and w = example_world
      and uuid = "''u1''" and filename = "[CHR ''a'', CHR 0x00]"]
  have j: "filepath_Join [outputDir, ''u1'', ''notes.txt''] = ''output/u1/notes.txt''"
      "filepath_Join [outputDir, ''u1'', ''source.ipa''] = ''output/u1/source.ipa''"
      "filepath_Join [outputDir, ''u1'', [CHR ''a'', CHR 0x00]] =
         [CHR ''o'', CHR ''u'', CHR ''t'', CHR ''p'', CHR ''u'', CHR ''t'', CHR ''/'',
          CHR ''u'', CHR ''1'', CHR ''/'', CHR ''a'', CHR 0x00]"
    using at_notes at_source at_nul p by simp_all
  have a: "Stat_IsNotExist example_outside (disk example_world) ''output/u1/notes.txt''"
    by (simp add: Stat_IsNotExist_def os_Stat_def example_world_def example_outside_def)
  have b: "\<not> Stat_IsNotExist example_outside (disk world_one) ''output/u1/source.ipa''"
    by (simp add: Stat_IsNotExist_def os_Stat_def world_one_eq write_file_def)
  have c: "\<not> Stat_IsNotExist example_outside (disk example_world)
               [CHR ''o'', CHR ''u'', CHR ''t'', CHR ''p'', CHR ''u'', CHR ''t'', CHR ''/'',
                CHR ''u'', CHR ''1'', CHR ''/'', CHR ''a'', CHR 0x00]"
    by (simp add: Stat_IsNotExist_def example_outside_def)
  from at_notes at_source at_nul a b c
  show ?thesis
    by (simp add: j HasSuffix_def suffix_to_prefix)
qed

text \<open>
  C4 as stated fails. \<open>notes.txt\<close> is none of the artifact names. When the file exists in
  the working directory the handler goes on to \<open>c.File\<close> with its path; when it does not,
  the answer is the 404 of the filesystem check, so the filesystem has been asked in
  both cases.
\<close>

theorem download_unlisted_name_served:
  "''notes.txt'' \<notin> set artifact_names \<and>
   downloadHandler example_outside ''u1'' ''notes.txt''
       (example_world\<lparr>disk := write_file ''output/u1/notes.txt'' ''hello'' (disk example_world)\<rparr>) =
     (c_File ''output/u1/notes.txt'' [],
      example_world\<lparr>disk := write_file ''output/u1/notes.txt'' ''hello'' (disk example_world)\<rparr>) \<and>
   downloadHandler example_outside ''u1'' ''notes.txt'' example_world =
     (JSON_error 404 ''File not found'', example_world)"
  by (simp add: artifact_names_def downloadHandler_def path_defs Stat_IsNotExist_def
        os_Stat_def write_file_def example_world_def example_outside_def HasSuffix_def
        suffix_to_prefix Let_def)

subsection \<open>Requests to \<open>resignHandler\<close>\<close>

text \<open>
  C9. A \<open>/resign\<close> request with a fresh URL and neither bundle id nor app name, whose
  download succeeds and whose archive cannot be read, stores a record with empty
  \<open>BundleID\<close> and \<open>AppName\<close> under the new UUID, whatever the rest of the request is.
  The request is answered with an error and no signer is launched. The record is what a
  scan for the URL returns when the loop meets the new UUID first, and what a later
  \<open>/analyze\<close> request returns when no other key holds a record of the URL.
\<close>

theorem resign_stores_empty_record:
  assumes fresh: "ipa_uuid c = []" "ipa_url c \<noteq> []"
    and none: "bundle_id c = []" "app_name c = []"
    and mk: "\<not> MkdirAll_err ow (filepath_Join [outputDir, uuid_New ow])"
    and dl: "downloadFile ow (ipa_url c)
               (filepath_Join [filepath_Join [outputDir, uuid_New ow], ''source.ipa''])
               (w\<lparr>disk := mkdir_all (filepath_Join [outputDir, uuid_New ow]) (disk w)\<rparr>) =
             (None, w2)"
    and ex: "extractIPAInfo ow (disk w2)
               (filepath_Join [filepath_Join [outputDir, uuid_New ow], ''source.ipa'']) = Inl e"
  shows "\<exists>code msg w'.
           resignHandler ow c w = (JSON_error code msg, w') \<and>
           launched w' = launched w \<and>
           ipaCache w' = (ipaCache w)(uuid_New ow \<mapsto>
             \<lparr>OriginalURL = ipa_url c, UUID = uuid_New ow, BundleID = [], AppName = [],
              UploadedAt = time_Now ow\<rparr>) \<and>
           find_by_origin (uuid_New ow # order) (ipaCache w') (ipa_url c) =
             Some \<lparr>OriginalURL = ipa_url c, UUID = uuid_New ow, BundleID = [], AppName = [],
                   UploadedAt = time_Now ow\<rparr> \<and>
           (range_ok (range_order ow') (ipaCache w') \<and>
            origin_unique (ipaCache w') (ipa_url c) \<longrightarrow>
              analyzeIPAHandler ow' c w' =
                (AnalyzeJSON (uuid_New ow) [] []
                   (download_url (baseURL w) (uuid_New ow) ''source.ipa'') True, w'))"
proof -
  let ?u = "uuid_New ow"
  let ?wd = "filepath_Join [outputDir, ?u]"
  let ?sp = "filepath_Join [?wd, ''source.ipa'']"
  let ?r = "\<lparr>OriginalURL = ipa_url c, UUID = ?u, BundleID = [], AppName = [],
             UploadedAt = time_Now ow\<rparr>"
  let ?w3 = "w2\<lparr>trace := trace w2 @ [ZipOpen ?sp]\<rparr>"
  let ?w4 = "?w3\<lparr>ipaCache := (ipaCache ?w3)(?u \<mapsto> ?r)\<rparr>"
  have src: "resign_source ow c w = (Inr (?u, ?wd, ?sp, [], []), ?w4)"
    using fresh none mk dl ex by (simp add: resign_source_def os_MkdirAll_def Let_def)
  obtain resp w' where sign: "resign_sign ow c (?u, ?wd, ?sp, [], []) ?w4 = (resp, w')"
    by (cases "resign_sign ow c (?u, ?wd, ?sp, [], []) ?w4") blast
  from resign_sign_refused [OF _ sign] obtain code msg
    where resp: "resp = JSON_error code msg" and tr: "trace w' = trace ?w4" by auto
  from resign_sign_keeps [OF sign]
  have keep: "ipaCache w' = ipaCache ?w4" "baseURL w' = baseURL ?w4" by simp_all
  from downloadFile_keeps [OF dl]
  have keep2: "ipaCache w2 = ipaCache w" "baseURL w2 = baseURL w" by simp_all
  have run: "resignHandler ow c w = (JSON_error code msg, w')"
    using src sign resp by (simp add: resignHandler_def)
  have la: "launched w' = launched w"
    using resign_source_launched [OF src] tr by (simp add: launched_def)
  have cache: "ipaCache w' = (ipaCache w)(?u \<mapsto> ?r)"
    using keep keep2 by simp
  have base: "baseURL w' = baseURL w" using keep keep2 by simp
  have scan: "find_by_origin (?u # order) (ipaCache w') (ipa_url c) = Some ?r"
    using cache by (simp add: find_by_origin_def range_ipaCache_def)
  have later: "range_ok (range_order ow') (ipaCache w') \<and>
            origin_unique (ipaCache w') (ipa_url c) \<longrightarrow>
              analyzeIPAHandler ow' c w' =
                (AnalyzeJSON ?u [] [] (download_url (baseURL w) ?u ''source.ipa'') True, w')"
  proof
    assume h: "range_ok (range_order ow') (ipaCache w') \<and>
            origin_unique (ipaCache w') (ipa_url c)"
    have at: "ipaCache w' ?u = Some ?r" using cache by simp
    from h find_by_origin_unique [of "range_order ow'" "ipaCache w'" ?u ?r "ipa_url c"] at
    have "find_by_origin (range_order ow') (ipaCache w') (ipa_url c) = Some ?r" by simp
    from analyze_hit [OF fresh(2) this] base
    show "analyzeIPAHandler ow' c w' =
                (AnalyzeJSON ?u [] [] (download_url (baseURL w) ?u ''source.ipa'') True, w')"
      by simp
  qed
  from run la cache scan later show ?thesis by blast
qed

theorem resign_stores_empty_record_witness:
  "fst (resignHandler example_outside
          (example_signing_form\<lparr>ipa_url := ''https://x/junk.ipa'', ipa_uuid := []\<rparr>)
          example_world) =
     JSON_error 400 ''Bundle ID and App Name must be provided'' \<and>
   ipaCache (snd (resignHandler example_outside
          (example_signing_form\<lparr>ipa_url := ''https://x/junk.ipa'', ipa_uuid := []\<rparr>)
          example_world)) ''u1'' =
     Some \<lparr>OriginalURL = ''https://x/junk.ipa'', UUID = ''u1'', BundleID = [], AppName = [],
            UploadedAt = 1\<rparr> \<and>
   fst (analyzeIPAHandler (example_outside\<lparr>range_order := [''u1'']\<rparr>)
          (example_signing_form\<lparr>ipa_url := ''https://x/junk.ipa'', ipa_uuid := []\<rparr>)
          (snd (resignHandler example_outside
             (example_signing_form\<lparr>ipa_url := ''https://x/junk.ipa'', ipa_uuid := []\<rparr>)
             example_world))) =
     AnalyzeJSON ''u1'' [] [] ''http://localhost:8080/download/u1/source.ipa'' True"
proof -
  let ?c = "example_signing_form\<lparr>ipa_url := ''https://x/junk.ipa'', ipa_uuid := []\<rparr>"
  let ?ow' = "example_outside\<lparr>range_order := [''u1'']\<rparr>"
  let ?w2 = "\<lparr>baseURL = ''http://localhost:8080'', ipaCache = Map.empty,
       disk = write_file ''output/u1/source.ipa'' ''junk''
                (mkdir_all ''output/u1'' \<lparr>dirs = {''output''}, files = Map.empty\<rparr>),
       trace = [HttpGet ''https://x/junk.ipa'']\<rparr>"
  let ?w' = "snd (resignHandler example_outside ?c example_world)"
  have h1: "ipa_uuid ?c = []" "ipa_url ?c \<noteq> []" "bundle_id ?c = []" "app_name ?c = []"
    by (simp_all add: example_signing_form_def)
  have h2: "\<not> MkdirAll_err example_outside (filepath_Join [outputDir, uuid_New example_outside])"
    by (simp add: example_outside_def)
  have h3: "downloadFile example_outside (ipa_url ?c)
      (filepath_Join [filepath_Join [outputDir, uuid_New example_outside], ''source.ipa''])
      (example_world\<lparr>disk := mkdir_all (filepath_Join [outputDir, uuid_New example_outside])
                                (disk example_world)\<rparr>) = (None, ?w2)"
    by (simp add: example_outside_def example_signing_form_def example_world_def
          downloadFile_def path_defs Let_def write_file_def mkdir_all_def)
  have h4: "extractIPAInfo example_outside (disk ?w2)
      (filepath_Join [filepath_Join [outputDir, uuid_New example_outside], ''source.ipa'']) =
      Inl ''failed to open IPA file: zip: not a valid zip file''"
    by (simp add: example_outside_def extractIPAInfo_def zip_OpenReader_def path_defs
          write_file_def mkdir_all_def)
  from resign_stores_empty_record [OF h1 h2 h3 h4, of "[]" ?ow']
  obtain code msg w' where run: "resignHandler example_outside ?c example_world =
        (JSON_error code msg, w')"
    and cache: "ipaCache w' = (ipaCache example_world)(uuid_New example_outside \<mapsto>
             \<lparr>OriginalURL = ipa_url ?c, UUID = uuid_New example_outside, BundleID = [],
              AppName = [], UploadedAt = time_Now example_outside\<rparr>)"
    and later: "range_ok (range_order ?ow') (ipaCache w') \<and>
            origin_unique (ipaCache w') (ipa_url ?c) \<longrightarrow>
              analyzeIPAHandler ?ow' ?c w' =
                (AnalyzeJSON (uuid_New example_outside) [] []
                   (download_url (baseURL example_world) (uuid_New example_outside)
                      ''source.ipa'') True, w')"
    by blast
  have cache': "ipaCache w' = [''u1'' \<mapsto> \<lparr>OriginalURL = ''https://x/junk.ipa'', UUID = ''u1'',
      BundleID = [], AppName = [], UploadedAt = 1\<rparr>]"
    using cache by (simp add: example_outside_def example_world_def example_signing_form_def)
  have ok: "range_ok (range_order ?ow') (ipaCache w')"
    by (simp add: cache' range_ok_def)
  have uniq: "origin_unique (ipaCache w') (ipa_url ?c)"
    by (auto simp: cache' origin_unique_def split: if_splits)
  from later ok uniq have an: "analyzeIPAHandler ?ow' ?c w' =
        (AnalyzeJSON ''u1'' [] [] ''http://localhost:8080/download/u1/source.ipa'' True, w')"
    by (simp add: example_outside_def example_world_def download_url_def)
  from run resign_junk have "code = 400" "msg = ''Bundle ID and App Name must be provided''"
    by simp_all
  with run an cache' show ?thesis by simp
qed


lemma resign_sign_empty_password:
  assumes "p12_password c = []"
  shows "\<exists>w'. resign_sign ow c (u, wd, sp, b, a) w1 =
           (if p12 c = None then JSON_error 400 ''Missing p12 file''
            else if SaveUploadedFile_err ow (filepath_Join [wd, ''cert.p12''])
              then JSON_error 500 ''Failed to save p12 file''
            else if mobileprovision c = None then JSON_error 400 ''Missing mobileprovision file''
            else if SaveUploadedFile_err ow (filepath_Join [wd, ''profile.mobileprovision''])
              then JSON_error 500 ''Failed to save mobileprovision file''
            else JSON_error 400 ''Missing p12_password parameter'', w') \<and>
         trace w' = trace w1"
  using assms by (auto simp: resign_sign_def Let_def split: option.splits)

text \<open>
  C8 (as amended). A \<open>/resign\<close> request with an empty \<open>p12_password\<close> is answered with an
  error and launches no signer. The error is that of the first step that fails, in the
  order of the handler: the identifier is unknown; neither identifier nor URL is given;
  the working directory cannot be made; the download fails; the certificate is missing
  or cannot be saved; the profile is missing or cannot be saved. When all these steps
  pass, the error is 400 \<open>Missing p12_password parameter\<close>.
\<close>

theorem resign_empty_password:
  fixes ow :: outside and c :: form and w :: world
    and workDir p12Path mobileprovisionPath :: string
    and fetched :: "string option \<times> world" and resolved :: bool
  defines "workDir \<equiv>
             filepath_Join [outputDir, if ipa_uuid c \<noteq> [] then ipa_uuid c else uuid_New ow]"
    and "p12Path \<equiv> filepath_Join [workDir, ''cert.p12'']"
    and "mobileprovisionPath \<equiv> filepath_Join [workDir, ''profile.mobileprovision'']"
    and "fetched \<equiv> downloadFile ow (ipa_url c) (filepath_Join [workDir, ''source.ipa''])
                      (w\<lparr>disk := mkdir_all workDir (disk w)\<rparr>)"
    and "resolved \<equiv>
           (if ipa_uuid c \<noteq> [] then ipaCache w (ipa_uuid c) \<noteq> None
            else ipa_url c \<noteq> [] \<and> \<not> MkdirAll_err ow workDir \<and> fst fetched = None)"
  assumes pw: "p12_password c = []"
  shows "\<exists>code msg w'.
           resignHandler ow c w = (JSON_error code msg, w') \<and>
           launched w' = launched w \<and>
           (ipa_uuid c \<noteq> [] \<and> ipaCache w (ipa_uuid c) = None \<longrightarrow>
              code = 400 \<and> msg = ''Invalid ipa_uuid, IPA not found'') \<and>
           (ipa_uuid c = [] \<and> ipa_url c = [] \<longrightarrow>
              code = 400 \<and> msg = ''Either ipa_url or ipa_uuid must be provided'') \<and>
           (ipa_uuid c = [] \<and> ipa_url c \<noteq> [] \<and> MkdirAll_err ow workDir \<longrightarrow>
              code = 500 \<and> msg = ''Failed to create directory'') \<and>
           (ipa_uuid c = [] \<and> ipa_url c \<noteq> [] \<and> \<not> MkdirAll_err ow workDir \<and>
            fst fetched \<noteq> None \<longrightarrow>
              code = 500 \<and> msg = ''Failed to download IPA file'') \<and>
           (resolved \<and> p12 c = None \<longrightarrow>
              code = 400 \<and> msg = ''Missing p12 file'') \<and>
           (resolved \<and> p12 c \<noteq> None \<and> SaveUploadedFile_err ow p12Path \<longrightarrow>
              code = 500 \<and> msg = ''Failed to save p12 file'') \<and>
           (resolved \<and> p12 c \<noteq> None \<and> \<not> SaveUploadedFile_err ow p12Path \<and>
            mobileprovision c = None \<longrightarrow>
              code = 400 \<and> msg = ''Missing mobileprovision file'') \<and>
           (resolved \<and> p12 c \<noteq> None \<and> \<not> SaveUploadedFile_err ow p12Path \<and>
            mobileprovision c \<noteq> None \<and> SaveUploadedFile_err ow mobileprovisionPath \<longrightarrow>
              code = 500 \<and> msg = ''Failed to save mobileprovision file'') \<and>
           (resolved \<and> p12 c \<noteq> None \<and> \<not> SaveUploadedFile_err ow p12Path \<and>
            mobileprovision c \<noteq> None \<and> \<not> SaveUploadedFile_err ow mobileprovisionPath \<longrightarrow>
              code = 400 \<and> msg = ''Missing p12_password parameter'') \<and>
           (\<forall>uuidStr dir sourceIpaPath bundleID appName w1.
              resign_source ow c w =
                (Inr (uuidStr, dir, sourceIpaPath, bundleID, appName), w1) \<and>
              p12 c \<noteq> None \<and> mobileprovision c \<noteq> None \<and>
              \<not> SaveUploadedFile_err ow (filepath_Join [dir, ''cert.p12'']) \<and>
              \<not> SaveUploadedFile_err ow (filepath_Join [dir, ''profile.mobileprovision''])
              \<longrightarrow> code = 400 \<and> msg = ''Missing p12_password parameter'')"
proof -
  obtain x w1 where rs: "resign_source ow c w = (x, w1)"
    by (cases "resign_source ow c w") blast
  from resign_source_launched [OF rs] have la1: "launched w1 = launched w" .
  show ?thesis
  proof (cases x)
    case (Inl early)
    from rs Inl have
      early: "early =
         (if ipa_uuid c \<noteq> [] then JSON_error 400 ''Invalid ipa_uuid, IPA not found''
          else if ipa_url c = [] then JSON_error 400 ''Either ipa_url or ipa_uuid must be provided''
          else if MkdirAll_err ow workDir then JSON_error 500 ''Failed to create directory''
          else JSON_error 500 ''Failed to download IPA file'')"
      and unres: "\<not> resolved"
      by (auto simp: resign_source_def os_MkdirAll_def Let_def workDir_def resolved_def
            fetched_def split: if_splits option.splits prod.splits)
    have run: "resignHandler ow c w = (early, w1)"
      using rs Inl by (simp add: resignHandler_def)
    from rs Inl have no: "\<And>src w2. resign_source ow c w \<noteq> (Inr src, w2)" by simp
    show ?thesis
      using run la1 unres no early
      by (auto simp: resolved_def split: if_splits)
  next
    case (Inr src)
    obtain u wd sp b a where src: "src = (u, wd, sp, b, a)" by (cases src) auto
    from rs Inr src have wd: "wd = workDir" and res: "resolved"
      by (auto simp: resign_source_def os_MkdirAll_def Let_def workDir_def resolved_def
            fetched_def split: if_splits option.splits prod.splits)
    from resign_sign_empty_password [OF pw, of ow u wd sp b a w1] obtain w'
      where sign: "resign_sign ow c (u, wd, sp, b, a) w1 =
           (if p12 c = None then JSON_error 400 ''Missing p12 file''
            else if SaveUploadedFile_err ow (filepath_Join [wd, ''cert.p12''])
              then JSON_error 500 ''Failed to save p12 file''
            else if mobileprovision c = None then JSON_error 400 ''Missing mobileprovision file''
            else if SaveUploadedFile_err ow (filepath_Join [wd, ''profile.mobileprovision''])
              then JSON_error 500 ''Failed to save mobileprovision file''
            else JSON_error 400 ''Missing p12_password parameter'', w')"
        and tr: "trace w' = trace w1"
      by blast
    have la: "launched w' = launched w" using la1 tr by (simp add: launched_def)
    have run: "resignHandler ow c w = resign_sign ow c (u, wd, sp, b, a) w1"
      using rs Inr src by (simp add: resignHandler_def)
    have known: "ipa_uuid c \<noteq> [] \<longrightarrow> ipaCache w (ipa_uuid c) \<noteq> None"
      "ipa_uuid c = [] \<longrightarrow> ipa_url c \<noteq> [] \<and> \<not> MkdirAll_err ow workDir \<and> fst fetched = None"
      using res by (auto simp: resolved_def split: if_splits)
    show ?thesis
      unfolding run sign using la known rs Inr src wd
      by (auto simp: p12Path_def mobileprovisionPath_def)
  qed
qed

theorem resign_empty_password_witness:
  "fst (resignHandler example_outside (example_signing_form\<lparr>p12_password := []\<rparr>) world_one) =
     JSON_error 400 ''Missing p12_password parameter'' \<and>
   launched (snd (resignHandler example_outside
                    (example_signing_form\<lparr>p12_password := []\<rparr>) world_one)) = [] \<and>
   fst (resignHandler example_outside
          (example_signing_form\<lparr>p12_password := [], ipa_uuid := ''u9''\<rparr>) world_one) =
     JSON_error 400 ''Invalid ipa_uuid, IPA not found''"
proof -
  let ?c = "example_signing_form\<lparr>p12_password := []\<rparr>"
  let ?d = "example_signing_form\<lparr>p12_password := [], ipa_uuid := ''u9''\<rparr>"
  have h: "p12_password ?c = []" "p12_password ?d = []" by simp_all
  have e: "launched world_one = []" by (simp add: launched_def world_one_eq)
  have sv: "\<And>p. \<not> SaveUploadedFile_err example_outside p"
    by (simp add: example_outside_def)
  have fc: "ipa_uuid ?c \<noteq> []" "ipaCache world_one (ipa_uuid ?c) \<noteq> None"
      "p12 ?c \<noteq> None" "mobileprovision ?c \<noteq> None"
    by (simp_all add: example_signing_form_def world_one_eq)
  have fd: "ipa_uuid ?d \<noteq> []" "ipaCache world_one (ipa_uuid ?d) = None"
    by (simp_all add: example_signing_form_def world_one_eq)
  from resign_empty_password [where ow = example_outside and c = ?c and w = world_one, OF h(1)]
  obtain code msg w' where run: "resignHandler example_outside ?c world_one =
        (JSON_error code msg, w')"
    and la: "launched w' = launched world_one"
    and "code = 400 \<and> msg = ''Missing p12_password parameter''"
    using fc sv by auto
  with e have A: "fst (resignHandler example_outside ?c world_one) =
             JSON_error 400 ''Missing p12_password parameter'' \<and>
           launched (snd (resignHandler example_outside ?c world_one)) = []"
    by simp
  from resign_empty_password [where ow = example_outside and c = ?d and w = world_one, OF h(2)]
  obtain code2 msg2 w2 where "resignHandler example_outside ?d world_one =
        (JSON_error code2 msg2, w2)"
    and "code2 = 400 \<and> msg2 = ''Invalid ipa_uuid, IPA not found''"
    using fd by auto
  then have B: "fst (resignHandler example_outside ?d world_one) =
             JSON_error 400 ''Invalid ipa_uuid, IPA not found''"
    by simp
  from A B show ?thesis by simp
qed

text \<open>
  C8 as stated fails. A request with an empty password that uploads no certificate is
  refused for the missing certificate, which is checked first.
\<close>

theorem resign_empty_password_other_error:
  "p12_password (example_form\<lparr>ipa_uuid := ''u1''\<rparr>) = [] \<and>
   resignHandler example_outside (example_form\<lparr>ipa_uuid := ''u1''\<rparr>) world_one =
     (JSON_error 400 ''Missing p12 file'', world_one)"
  by (simp add: resign_no_upload) (simp add: example_form_def)

text \<open>
  C5. A \<open>/resign\<close> request that names an analyzed IPA, uploads both files (which are
  saved), and has a password, a bundle id and an app name that are not empty, launches
  exactly one subprocess: \<open>zsign\<close> with the credential path, the profile path, the password,
  the bundle id, the app name, the output path, compression level 9 and the source
  archive, in this order. The answer carries the locators only if the signer exited
  with status zero and its output file exists afterwards; when moreover the manifest
  can be written, the answer does carry them.
\<close>

theorem resign_runs_signer_once:
  fixes ow :: outside and c :: form and w :: world and info :: IPAInfo
    and p12_data mobileprovision_data :: string
    and workDir sourceIpaPath p12Path mobileprovisionPath outputPath plistPath :: string
    and bundleID appName :: string and args :: "string list"
    and signed :: "bool \<times> string \<times> filesystem"
  defines "workDir \<equiv> filepath_Join [outputDir, ipa_uuid c]"
    and "sourceIpaPath \<equiv> filepath_Join [workDir, ''source.ipa'']"
    and "p12Path \<equiv> filepath_Join [workDir, ''cert.p12'']"
    and "mobileprovisionPath \<equiv> filepath_Join [workDir, ''profile.mobileprovision'']"
    and "outputPath \<equiv> filepath_Join [workDir, ''resigned.ipa'']"
    and "plistPath \<equiv> filepath_Join [workDir, ''manifest.plist'']"
    and "bundleID \<equiv> if bundle_id c \<noteq> [] then bundle_id c else BundleID info"
    and "appName \<equiv> if app_name c \<noteq> [] then app_name c else AppName info"
    and "args \<equiv> [''-k'', p12Path, ''-m'', mobileprovisionPath, ''-p'', p12_password c,
                  ''-b'', bundleID, ''-n'', appName, ''-o'', outputPath, ''-z'', ''9'',
                  sourceIpaPath]"
    and "signed \<equiv> zsign ow args
                     (write_file mobileprovisionPath mobileprovision_data
                        (write_file p12Path p12_data (disk w)))"
  assumes known: "ipa_uuid c \<noteq> []" "ipaCache w (ipa_uuid c) = Some info"
    and uploads: "p12 c = Some p12_data" "mobileprovision c = Some mobileprovision_data"
    and saved: "\<not> SaveUploadedFile_err ow p12Path"
               "\<not> SaveUploadedFile_err ow mobileprovisionPath"
    and password: "p12_password c \<noteq> []"
    and named: "bundleID \<noteq> []" "appName \<noteq> []"
  shows "\<exists>resp w'.
           resignHandler ow c w = (resp, w') \<and>
           trace w' = trace w @ [Exec ''zsign'' args] \<and>
           ((\<exists>u p s r b a. resp = ResignJSON u p s r b a) \<longrightarrow>
              \<not> fst signed \<and> os_Stat (snd (snd signed)) outputPath) \<and>
           (\<not> fst signed \<and> os_Stat (snd (snd signed)) outputPath \<and>
            \<not> WriteFile_err ow plistPath \<longrightarrow>
              resp = ResignJSON (ipa_uuid c)
                       (download_url (baseURL w) (ipa_uuid c) ''manifest.plist'')
                       (download_url (baseURL w) (ipa_uuid c) ''source.ipa'')
                       (download_url (baseURL w) (ipa_uuid c) ''resigned.ipa'')
                       bundleID appName)"
proof -
  have src: "resign_source ow c w =
               (Inr (ipa_uuid c, workDir, sourceIpaPath, bundleID, appName), w)"
    using known
    by (simp add: resign_source_def Let_def workDir_def sourceIpaPath_def bundleID_def
          appName_def)
  obtain err out fs3 where z: "signed = (err, out, fs3)" by (cases signed) auto
  show ?thesis
    using uploads saved password named z
    unfolding resignHandler_def src
    by (simp add: resign_sign_def Let_def zsign_args_def
          p12Path_def [symmetric] mobileprovisionPath_def [symmetric]
          outputPath_def [symmetric] plistPath_def [symmetric] args_def [symmetric]
          signed_def [symmetric])
qed

theorem resign_runs_signer_once_witness:
  "fst (resignHandler example_outside example_signing_form world_one) =
     ResignJSON ''u1'' ''http://localhost:8080/download/u1/manifest.plist''
        ''http://localhost:8080/download/u1/source.ipa''
        ''http://localhost:8080/download/u1/resigned.ipa'' ''com.example.app'' ''ExampleApp'' \<and>
   launched (snd (resignHandler example_outside example_signing_form world_one)) =
     [Exec ''zsign''
        [''-k'', ''output/u1/cert.p12'', ''-m'', ''output/u1/profile.mobileprovision'',
         ''-p'', ''secret'', ''-b'', ''com.example.app'', ''-n'', ''ExampleApp'',
         ''-o'', ''output/u1/resigned.ipa'', ''-z'', ''9'', ''output/u1/source.ipa'']]"
proof -
  let ?info = "\<lparr>OriginalURL = ''https://x/app.ipa'', UUID = ''u1'',
            BundleID = ''com.example.app'', AppName = ''ExampleApp'', UploadedAt = 1\<rparr>"
  have h: "ipa_uuid example_signing_form \<noteq> []"
      "ipaCache world_one (ipa_uuid example_signing_form) = Some ?info"
      "p12 example_signing_form = Some ''cert''"
      "mobileprovision example_signing_form = Some ''profile''"
      "p12_password example_signing_form \<noteq> []"
    by (simp_all add: example_signing_form_def world_one_eq)
  have sv: "\<not> SaveUploadedFile_err example_outside
               (filepath_Join [filepath_Join [outputDir, ipa_uuid example_signing_form],
                  ''cert.p12''])"
      "\<not> SaveUploadedFile_err example_outside
               (filepath_Join [filepath_Join [outputDir, ipa_uuid example_signing_form],
                  ''profile.mobileprovision''])"
    by (simp_all add: example_outside_def)
  have nm: "(if bundle_id example_signing_form \<noteq> [] then bundle_id example_signing_form
             else BundleID ?info) \<noteq> []"
      "(if app_name example_signing_form \<noteq> [] then app_name example_signing_form
             else AppName ?info) \<noteq> []"
    by (simp_all add: example_signing_form_def)
  from resign_runs_signer_once [OF h(1,2,3,4) sv h(5) nm]
  obtain resp w' where run: "resignHandler example_outside example_signing_form world_one =
        (resp, w')"
    and tr: "trace w' = trace world_one @
        [Exec ''zsign''
           [''-k'', filepath_Join [filepath_Join [outputDir, ipa_uuid example_signing_form],
                      ''cert.p12''],
            ''-m'', filepath_Join [filepath_Join [outputDir, ipa_uuid example_signing_form],
                      ''profile.mobileprovision''],
            ''-p'', p12_password example_signing_form,
            ''-b'', if bundle_id example_signing_form \<noteq> [] then bundle_id example_signing_form
                    else BundleID ?info,
            ''-n'', if app_name example_signing_form \<noteq> [] then app_name example_signing_form
                    else AppName ?info,
            ''-o'', filepath_Join [filepath_Join [outputDir, ipa_uuid example_signing_form],
                      ''resigned.ipa''],
            ''-z'', ''9'',
            filepath_Join [filepath_Join [outputDir, ipa_uuid example_signing_form],
              ''source.ipa'']]]"
    by blast
  from tr have la: "launched w' =
     [Exec ''zsign''
        [''-k'', ''output/u1/cert.p12'', ''-m'', ''output/u1/profile.mobileprovision'',
         ''-p'', ''secret'', ''-b'', ''com.example.app'', ''-n'', ''ExampleApp'',
         ''-o'', ''output/u1/resigned.ipa'', ''-z'', ''9'', ''output/u1/source.ipa'']]"
    by (simp add: launched_def world_one_eq example_signing_form_def path_defs)
  from run resign_example have "resp = ResignJSON ''u1''
        ''http://localhost:8080/download/u1/manifest.plist''
        ''http://localhost:8080/download/u1/source.ipa''
        ''http://localhost:8080/download/u1/resigned.ipa'' ''com.example.app'' ''ExampleApp''"
    by simp
  with run la show ?thesis by simp
qed

subsection \<open>The metadata reader\<close>

text \<open>
  C7 (as amended). When the archive opens, its first entry ending in \<open>.app/Info.plist\<close>
  can be read and parsed, and \<open>CFBundleIdentifier\<close> is a string, \<open>extractIPAInfo\<close> succeeds,
  and the app name is the value of \<open>CFBundleDisplayName\<close> if that is a string, else the
  value of \<open>CFBundleName\<close> if that is a string, else \<open>Unknown App\<close>. The app name is empty
  only when the string so chosen is empty.
\<close>

theorem extractIPAInfo_app_name:
  assumes "zip_OpenReader ow fs ipaPath = Inr entries"
    and "find (\<lambda>file. HasSuffix (Name file) ''.app/Info.plist'') entries = Some infoPlistFile"
    and "Body infoPlistFile = Data plistData"
    and "plist_Unmarshal ow plistData = Inr plistObj"
    and "plistObj ''CFBundleIdentifier'' = Some (PString bundleID)"
  shows "\<exists>appName.
           extractIPAInfo ow fs ipaPath = Inr (bundleID, appName) \<and>
           appName =
             (case plistObj ''CFBundleDisplayName'' of
                Some (PString display) \<Rightarrow> display
              | _ \<Rightarrow> (case plistObj ''CFBundleName'' of
                        Some (PString name) \<Rightarrow> name
                      | _ \<Rightarrow> ''Unknown App'')) \<and>
           (appName = [] \<longrightarrow>
              plistObj ''CFBundleDisplayName'' = Some (PString []) \<or>
              plistObj ''CFBundleName'' = Some (PString []))"
  using assms
  by (simp add: extractIPAInfo_def assert_string_def split: option.splits plist_value.splits)

theorem extractIPAInfo_app_name_witness:
  "extractIPAInfo example_outside example_disk ''output/u1/source.ipa'' =
     Inr (''com.example.app'', ''ExampleApp'')"
  using extractIPAInfo_app_name [of example_outside example_disk "''output/u1/source.ipa''"
       "[ZipFile ''Payload/Example.app/Info.plist'' (Data ''PK'')]"
       "ZipFile ''Payload/Example.app/Info.plist'' (Data ''PK'')"
       "''PK''"
       "[''CFBundleIdentifier'' \<mapsto> PString ''com.example.app'',
         ''CFBundleName'' \<mapsto> PString ''ExampleApp'']"
       "''com.example.app''"]
  by (simp add: zip_OpenReader_def example_outside_def example_disk_def HasSuffix_def
        suffix_to_prefix)

text \<open>
  C7 as stated fails: a metadata document whose display name is the empty string parses,
  has a string bundle identifier, and yields the empty app name.
\<close>

theorem extractIPAInfo_empty_app_name:
  "extractIPAInfo example_outside example_disk ''output/u2/source.ipa'' =
     Inr (''com.example.app'', [])"
  by (simp add: extractIPAInfo_def zip_OpenReader_def example_outside_def example_disk_def
        HasSuffix_def suffix_to_prefix assert_string_def)

end
